theory Spec2Isabelle
  imports Complex_Main "HOL-Library.Option_ord" "HOL-Library.Multiset"
begin

section \<open>CareerNest job board: a shallow embedding of main.py\<close>

text \<open>
  The four MongoDB collections are lists of documents in natural (insertion) order,
  carried in an explicit \<open>store\<close>. Every route handler takes the store and returns its
  result together with the store it leaves behind; a raised exception is the \<open>Inl\<close>
  branch of the result. What a handler obtains from outside the process (the token
  introspection reply, a fresh UUID, the clock) is read from an explicit \<open>env\<close>.
  Python's unbounded \<open>int\<close> is \<open>int\<close>; \<open>str\<close> is \<open>string\<close>; \<open>Optional[t]\<close> is \<open>t option\<close>.
  The internal \<open>_id\<close> key of a stored document is not represented, so \<open>_clean\<close> is the
  identity and is left out.
\<close>

subsection \<open>Exceptions\<close>

datatype error =
    HTTPException int string
  | RequestValidationError
  | DuplicateKeyError

subsection \<open>Stored documents\<close>

type_synonym datetime = int
type_synonym pyfloat = rat

datatype ApplicationStatus = pending | reviewing | shortlisted | rejected | accepted

record company =
  c_name :: string
  c_industry :: string
  c_website :: "string option"
  c_description :: "string option"
  c_logo_url :: "string option"
  c_location :: string
  c_id :: string
  c_created_at :: datetime
  c_total_jobs_posted :: int

record job =
  j_title :: string
  j_company_id :: string
  j_category :: string
  j_job_type :: string
  j_experience_level :: string
  j_location :: string
  j_is_remote :: bool
  j_description :: string
  j_responsibilities :: "string list"
  j_requirements :: "string list"
  j_nice_to_have :: "string list option"
  j_salary_min :: "int option"
  j_salary_max :: "int option"
  j_salary_currency :: string
  j_application_deadline :: "string option"
  j_openings :: int
  j_tags :: "string list option"
  j_id :: string
  j_is_active :: bool
  j_views :: int
  j_applications_count :: int
  j_created_at :: datetime
  j_updated_at :: datetime

text \<open>The request model \<open>ApplicationCreate\<close> of \<open>POST /jobs/{id}/apply\<close>.\<close>

record ApplicationCreate =
  applicant_name :: string
  applicant_email :: string
  google_access_token :: "string option"
  phone :: "string option"
  resume_url :: string
  cover_letter :: "string option"
  linkedin_url :: "string option"
  portfolio_url :: "string option"
  years_of_experience :: "pyfloat option"
  current_institution :: "string option"
  graduation_year :: "int option"

text \<open>
  A stored application is \<open>{**data.model_dump(), "id": ..., "job_id": ..., ...}\<close>: the
  request's fields extended by the eight keys that \<open>_submit_application\<close> adds.
\<close>

record application = ApplicationCreate +
  a_id :: string
  a_job_id :: string
  a_job_title :: string
  a_company_name :: string
  a_status :: ApplicationStatus
  a_applied_at :: datetime
  a_updated_at :: datetime
  a_notes :: "string option"

record bookmark =
  b_student_email :: string
  b_job_id :: string
  b_saved_at :: datetime

record store =
  col_companies :: "company list"
  col_jobs :: "job list"
  col_applications :: "application list"
  col_bookmarks :: "bookmark list"

subsection \<open>Collection operations\<close>

text \<open>\<open>find_one\<close> returns the first document, in natural order, that the filter matches.\<close>

definition find_one :: "('a \<Rightarrow> bool) \<Rightarrow> 'a list \<Rightarrow> 'a option" where
  "find_one P coll = List.find P coll"

text \<open>\<open>update_one\<close> changes the first matching document only, and nothing when none matches.\<close>

fun update_one :: "('a \<Rightarrow> bool) \<Rightarrow> ('a \<Rightarrow> 'a) \<Rightarrow> 'a list \<Rightarrow> 'a list" where
  "update_one P f [] = []"
| "update_one P f (x # xs) = (if P x then f x # xs else x # update_one P f xs)"

text \<open>\<open>delete_one\<close> removes the first matching document; the first component is \<open>deleted_count\<close>.\<close>

fun delete_one :: "('a \<Rightarrow> bool) \<Rightarrow> 'a list \<Rightarrow> nat \<times> 'a list" where
  "delete_one P [] = (0, [])"
| "delete_one P (x # xs) = (if P x then (1, xs) else apsnd ((#) x) (delete_one P xs))"

text \<open>
  \<open>insert_one\<close> into a collection that has a unique index on the key \<open>k\<close>
  (\<open>create_index("id", unique=True)\<close> on companies, jobs and applications): the driver
  raises \<open>DuplicateKeyError\<close> and stores nothing when the key is already present.
\<close>

definition insert_one :: "('a \<Rightarrow> string) \<Rightarrow> 'a \<Rightarrow> 'a list \<Rightarrow> error + 'a list" where
  "insert_one k doc coll =
     (if k doc \<in> set (map k coll) then Inl DuplicateKeyError else Inr (coll @ [doc]))"

subsection \<open>Helpers\<close>

record enriched_job =
  ej_job :: job
  ej_company :: "company option"

text \<open>\<open>_enrich_job\<close>: attach the company sub-document (or \<open>None\<close>) to a job.\<close>

definition enrich_job :: "store \<Rightarrow> job \<Rightarrow> enriched_job" where
  "enrich_job db job =
     \<lparr>ej_job = job,
      ej_company = find_one (\<lambda>c. c_id c = j_company_id job) (col_companies db)\<rparr>"

text \<open>
  \<open>str.strip()\<close>: characters are code points below 256, of which Python counts
  9..13, 28..32, 133 and 160 as whitespace.
\<close>

definition isspace :: "char \<Rightarrow> bool" where
  "isspace c = (let n = of_char c :: nat in
     (9 \<le> n \<and> n \<le> 13) \<or> (28 \<le> n \<and> n \<le> 32) \<or> n = 133 \<or> n = 160)"

definition strip :: "string \<Rightarrow> string" where
  "strip s = rev (dropWhile isspace (rev (dropWhile isspace s)))"

subsection \<open>GET /jobs: the listing query\<close>

text \<open>
  The filter dictionary \<open>q\<close> of \<open>list_jobs\<close>. It can only ever hold the eight keys below;
  a key that was not set is \<open>None\<close>. \<open>q_or\<close> is the pattern of the three-way \<open>$or\<close> over
  title, description and tags.
\<close>

record query =
  q_is_active :: "bool option"
  q_or :: "string option"
  q_category :: "string option"
  q_job_type :: "string option"
  q_experience_level :: "string option"
  q_location :: "string option"
  q_is_remote :: "bool option"
  q_salary_max :: "int option"

text \<open>
  How the document store evaluates \<open>q\<close> on one job. \<open>rx pat s\<close> stands for the store's
  \<open>{"$regex": pat, "$options": "i"}\<close> on the string \<open>s\<close>; the regular-expression engine is
  outside this program and stays a parameter. \<open>{"$gte": x}\<close> matches a number that is at
  least \<open>x\<close>, and never a null or missing field. All keys combine conjunctively.
\<close>

definition matches :: "(string \<Rightarrow> string \<Rightarrow> bool) \<Rightarrow> query \<Rightarrow> job \<Rightarrow> bool" where
  "matches rx q j \<longleftrightarrow>
     (case q_is_active q of None \<Rightarrow> True | Some b \<Rightarrow> j_is_active j = b) \<and>
     (case q_or q of None \<Rightarrow> True
      | Some pat \<Rightarrow> rx pat (j_title j) \<or> rx pat (j_description j) \<or>
          (case j_tags j of None \<Rightarrow> False | Some ts \<Rightarrow> list_ex (rx pat) ts)) \<and>
     (case q_category q of None \<Rightarrow> True | Some pat \<Rightarrow> rx pat (j_category j)) \<and>
     (case q_job_type q of None \<Rightarrow> True | Some pat \<Rightarrow> rx pat (j_job_type j)) \<and>
     (case q_experience_level q of None \<Rightarrow> True | Some pat \<Rightarrow> rx pat (j_experience_level j)) \<and>
     (case q_location q of None \<Rightarrow> True | Some pat \<Rightarrow> rx pat (j_location j)) \<and>
     (case q_is_remote q of None \<Rightarrow> True | Some b \<Rightarrow> j_is_remote j = b) \<and>
     (case q_salary_max q of None \<Rightarrow> True
      | Some x \<Rightarrow> (case j_salary_max j of None \<Rightarrow> False | Some m \<Rightarrow> x \<le> m))"

text \<open>Python truthiness of an \<open>Optional[str]\<close>: neither \<open>None\<close> nor the empty string.\<close>

definition truthy :: "string option \<Rightarrow> bool" where
  "truthy s = (case s of None \<Rightarrow> False | Some t \<Rightarrow> t \<noteq> [])"

text \<open>The \<open>if ...: q[...] = ...\<close> lines 396 to 408.\<close>

definition build_query ::
  "string option \<Rightarrow> string option \<Rightarrow> string option \<Rightarrow> string option \<Rightarrow> string option \<Rightarrow>
   bool option \<Rightarrow> int option \<Rightarrow> bool \<Rightarrow> query" where
  "build_query search category job_type experience_level location is_remote salary_min active_only =
     \<lparr>q_is_active = (if active_only then Some True else None),
      q_or = (if truthy search then map_option strip search else None),
      q_category = (if truthy category then map_option strip category else None),
      q_job_type = (if truthy job_type then map_option strip job_type else None),
      q_experience_level =
        (if truthy experience_level then map_option strip experience_level else None),
      q_location = (if truthy location then map_option strip location else None),
      q_is_remote = is_remote,
      q_salary_max = salary_min\<rparr>"

datatype direction = ASCENDING | DESCENDING

datatype sort_field = created_at | salary_max_field | salary_min_field | applications_count

text \<open>\<open>sort_map.get(sort_by, [("created_at", DESCENDING)])\<close>.\<close>

definition sort_map :: "string \<Rightarrow> sort_field \<times> direction" where
  "sort_map sort_by =
     (if sort_by = ''newest'' then (created_at, DESCENDING)
      else if sort_by = ''oldest'' then (created_at, ASCENDING)
      else if sort_by = ''salary_high'' then (salary_max_field, DESCENDING)
      else if sort_by = ''salary_low'' then (salary_min_field, ASCENDING)
      else if sort_by = ''most_applied'' then (applications_count, DESCENDING)
      else (created_at, DESCENDING))"

text \<open>
  The value a job is ordered by; a null sorts below every number. The cursor's \<open>sort\<close>
  is modelled as a stable sort, so documents with equal keys keep their natural order
  (the store itself leaves the order of ties open).
\<close>

definition sort_value :: "sort_field \<Rightarrow> job \<Rightarrow> int option" where
  "sort_value f j =
     (case f of created_at \<Rightarrow> Some (j_created_at j)
      | salary_max_field \<Rightarrow> j_salary_max j
      | salary_min_field \<Rightarrow> j_salary_min j
      | applications_count \<Rightarrow> Some (j_applications_count j))"

definition sort_docs :: "sort_field \<times> direction \<Rightarrow> job list \<Rightarrow> job list" where
  "sort_docs order_by coll =
     (case snd order_by of
        ASCENDING \<Rightarrow> sort_key (sort_value (fst order_by)) coll
      | DESCENDING \<Rightarrow> rev (sort_key (sort_value (fst order_by)) (rev coll)))"

record pagination =
  total :: int
  page_no :: int
  page_size_of :: int
  total_pages :: int

record list_jobs_response =
  jobs :: "enriched_job list"
  pagination_of :: pagination

text \<open>
  \<open>list_jobs\<close>. The bounds \<open>Query(1, ge=1)\<close> and \<open>Query(10, ge=1, le=50)\<close> of the signature
  are checked before the body runs; a request outside them is answered with a
  validation error. The handler only reads the store.
\<close>

definition list_jobs ::
  "(string \<Rightarrow> string \<Rightarrow> bool) \<Rightarrow> store \<Rightarrow>
   string option \<Rightarrow> string option \<Rightarrow> string option \<Rightarrow> string option \<Rightarrow> string option \<Rightarrow>
   bool option \<Rightarrow> int option \<Rightarrow> bool \<Rightarrow> string \<Rightarrow> int \<Rightarrow> int \<Rightarrow> error + list_jobs_response" where
  "list_jobs rx db search category job_type experience_level location is_remote salary_min
     active_only sort_by page page_size =
     (if page < 1 \<or> page_size < 1 \<or> 50 < page_size then Inl RequestValidationError
      else
        let q = build_query search category job_type experience_level location is_remote
                  salary_min active_only;
            sort_order = sort_map sort_by;
            found = filter (matches rx q) (col_jobs db);
            total = int (length found);
            skip = (page - 1) * page_size;
            js = map (enrich_job db)
                   (take (nat page_size) (drop (nat skip) (sort_docs sort_order found)))
        in Inr \<lparr>jobs = js,
                pagination_of = \<lparr>total = total, page_no = page, page_size_of = page_size,
                  total_pages = max 1 ((total + page_size - 1) div page_size)\<rparr>\<rparr>)"

subsection \<open>GET /jobs/{job_id} and DELETE /jobs/{job_id}\<close>

definition get_job :: "string \<Rightarrow> store \<Rightarrow> (error + enriched_job) \<times> store" where
  "get_job job_id db =
     (case find_one (\<lambda>j. j_id j = job_id) (col_jobs db) of
        None \<Rightarrow> (Inl (HTTPException 404 ''Job not found''), db)
      | Some job \<Rightarrow>
          let db' = db\<lparr>col_jobs :=
                      update_one (\<lambda>j. j_id j = job_id) (\<lambda>j. j\<lparr>j_views := j_views j + 1\<rparr>)
                        (col_jobs db)\<rparr>;
              job' = job\<lparr>j_views := j_views job + 1\<rparr>
          in (Inr (enrich_job db' job'), db'))"

definition delete_job :: "string \<Rightarrow> store \<Rightarrow> (error + string) \<times> store" where
  "delete_job job_id db =
     (let (deleted_count, jobs') = delete_one (\<lambda>j. j_id j = job_id) (col_jobs db)
      in if deleted_count = 0 then (Inl (HTTPException 404 ''Job not found''), db)
         else (Inr ''Job deleted successfully'', db\<lparr>col_jobs := jobs'\<rparr>))"

subsection \<open>The application workflow\<close>

text \<open>
  What \<open>requests.get(tokeninfo_url, params={"access_token": t}, timeout=5)\<close> and the
  following \<open>resp.json()\<close> can do: the call raises (connection error, timeout), or it
  returns a response with a status code whose body either is not JSON (\<open>resp.json()\<close>
  raises), decodes to something that is not a dictionary (\<open>.get\<close> raises
  \<open>AttributeError\<close>), or decodes to a dictionary.
\<close>

datatype pyval = PNone | PBool bool | PInt int | PStr string | POther

datatype json_body = NotJson | JsonNonDict | JsonDict "string \<rightharpoonup> pyval"

datatype http_outcome = RequestFailed | Response int json_body

record env =
  tokeninfo :: "string \<Rightarrow> http_outcome"
  uuid4 :: string
  utcnow :: datetime

text \<open>
  Lines 468 to 482, the optional Google token verification: \<open>Some e\<close> when the block
  raises the \<open>HTTPException\<close> \<open>e\<close>, \<open>None\<close> when control reaches the duplicate check.
  \<open>if data.google_access_token\<close> is Python truthiness, so an empty token is not verified.
  \<open>d.get("email") != data.applicant_email\<close> is false only for a string equal to the
  applicant's email; a missing key gives \<open>None\<close>, which differs from every string.
\<close>

definition google_verification :: "env \<Rightarrow> 'a ApplicationCreate_scheme \<Rightarrow> error option" where
  "google_verification w data =
     (case google_access_token data of
        None \<Rightarrow> None
      | Some token \<Rightarrow>
          if token = [] then None
          else (case tokeninfo w token of
                  RequestFailed \<Rightarrow> None
                | Response status_code body \<Rightarrow>
                    if status_code \<noteq> 200
                    then Some (HTTPException 401 ''Invalid Google authentication token.'')
                    else (case body of
                            NotJson \<Rightarrow> None
                          | JsonNonDict \<Rightarrow> None
                          | JsonDict d \<Rightarrow>
                              if d ''email'' \<noteq> Some (PStr (applicant_email data))
                              then Some (HTTPException 403 ''Email mismatch with Google account.'')
                              else None)))"

text \<open>\<open>_submit_application\<close> (an identifier cannot start with an underscore here).\<close>

definition submit_application ::
  "env \<Rightarrow> string \<Rightarrow> ApplicationCreate \<Rightarrow> store \<Rightarrow> (error + application) \<times> store" where
  "submit_application w job_id data db =
     (case find_one (\<lambda>j. j_id j = job_id) (col_jobs db) of
        None \<Rightarrow> (Inl (HTTPException 404 ''Job not found''), db)
      | Some job \<Rightarrow>
          if \<not> j_is_active job
          then (Inl (HTTPException 400 ''This job listing is no longer active''), db)
          else (case google_verification w data of
                  Some e \<Rightarrow> (Inl e, db)
                | None \<Rightarrow>
                    if find_one (\<lambda>a. a_job_id a = job_id \<and> applicant_email a = applicant_email data)
                         (col_applications db) \<noteq> None
                    then (Inl (HTTPException 409 ''You have already applied for this job''), db)
                    else
                      let company = find_one (\<lambda>c. c_id c = j_company_id job) (col_companies db);
                          now = utcnow w;
                          app_doc = ApplicationCreate.extend data
                            (application.fields (uuid4 w) job_id (j_title job)
                               (case company of Some c \<Rightarrow> c_name c | None \<Rightarrow> ''Unknown'')
                               pending now now None)
                      in (case insert_one a_id app_doc (col_applications db) of
                            Inl e \<Rightarrow> (Inl e, db)
                          | Inr applications' \<Rightarrow>
                              (Inr app_doc,
                               db\<lparr>col_applications := applications',
                                  col_jobs :=
                                    update_one (\<lambda>j. j_id j = job_id)
                                      (\<lambda>j. j\<lparr>j_applications_count := j_applications_count j + 1\<rparr>)
                                      (col_jobs db)\<rparr>))))"

record apply_response =
  message :: string
  application_id :: string
  application_of :: application

definition apply_for_job ::
  "env \<Rightarrow> string \<Rightarrow> ApplicationCreate \<Rightarrow> store \<Rightarrow> (error + apply_response) \<times> store" where
  "apply_for_job w job_id data db =
     (case submit_application w job_id data db of
        (Inl e, db') \<Rightarrow> (Inl e, db')
      | (Inr app_doc, db') \<Rightarrow>
          (Inr \<lparr>message = ''Application submitted successfully!'',
                application_id = a_id app_doc, application_of = app_doc\<rparr>, db'))"

subsection \<open>POST /jobs\<close>

datatype JobType = full_time | part_time | internship | contract | remote | hybrid

datatype ExperienceLevel = entry | mid | senior | no_experience

datatype JobCategory =
  technology | finance | marketing | design | operations | hr | sales | engineering
  | healthcare | education | other

definition JobType_value :: "JobType \<Rightarrow> string" where
  "JobType_value t =
     (case t of full_time \<Rightarrow> ''Full-Time'' | part_time \<Rightarrow> ''Part-Time''
      | internship \<Rightarrow> ''Internship'' | contract \<Rightarrow> ''Contract'' | remote \<Rightarrow> ''Remote''
      | hybrid \<Rightarrow> ''Hybrid'')"

definition ExperienceLevel_value :: "ExperienceLevel \<Rightarrow> string" where
  "ExperienceLevel_value l =
     (case l of entry \<Rightarrow> ''Entry Level'' | mid \<Rightarrow> ''Mid Level'' | senior \<Rightarrow> ''Senior Level''
      | no_experience \<Rightarrow> ''Internship / No Experience'')"

definition JobCategory_value :: "JobCategory \<Rightarrow> string" where
  "JobCategory_value c =
     (case c of technology \<Rightarrow> ''Technology'' | finance \<Rightarrow> ''Finance''
      | marketing \<Rightarrow> ''Marketing'' | design \<Rightarrow> ''Design'' | operations \<Rightarrow> ''Operations''
      | hr \<Rightarrow> ''Human Resources'' | sales \<Rightarrow> ''Sales'' | engineering \<Rightarrow> ''Engineering''
      | healthcare \<Rightarrow> ''Healthcare'' | education \<Rightarrow> ''Education'' | other \<Rightarrow> ''Other'')"

text \<open>A calendar date (year, month, day) and its \<open>str\<close>, the ISO form \<open>YYYY-MM-DD\<close>.\<close>

datatype date = Date nat nat nat

definition digit :: "nat \<Rightarrow> char" where
  "digit n = char_of (48 + n mod 10)"

fun str_date :: "date \<Rightarrow> string" where
  "str_date (Date y m d) =
     [digit (y div 1000), digit (y div 100), digit (y div 10), digit y] @ ''-'' @
     [digit (m div 10), digit m] @ ''-'' @ [digit (d div 10), digit d]"

record JobCreate =
  title :: string
  company_id :: string
  category :: JobCategory
  job_type :: JobType
  experience_level :: ExperienceLevel
  location :: string
  is_remote :: bool
  description :: string
  responsibilities :: "string list"
  requirements :: "string list"
  nice_to_have :: "string list option"
  salary_min :: "int option"
  salary_max :: "int option"
  salary_currency :: string
  application_deadline :: "date option"
  openings :: int
  tags :: "string list option"

record create_job_response =
  cj_message :: string
  cj_job :: enriched_job

definition create_job :: "env \<Rightarrow> JobCreate \<Rightarrow> store \<Rightarrow> (error + create_job_response) \<times> store" where
  "create_job w data db =
     (if find_one (\<lambda>c. c_id c = company_id data) (col_companies db) = None
      then (Inl (HTTPException 404 ''Company not found. Create the company first.''), db)
      else
        let jid = uuid4 w;
            now = utcnow w;
            doc = \<lparr>j_title = title data, j_company_id = company_id data,
                   j_category = JobCategory_value (category data),
                   j_job_type = JobType_value (job_type data),
                   j_experience_level = ExperienceLevel_value (experience_level data),
                   j_location = location data, j_is_remote = is_remote data,
                   j_description = description data,
                   j_responsibilities = responsibilities data,
                   j_requirements = requirements data,
                   j_nice_to_have = nice_to_have data,
                   j_salary_min = salary_min data, j_salary_max = salary_max data,
                   j_salary_currency = salary_currency data,
                   j_application_deadline = map_option str_date (application_deadline data),
                   j_openings = openings data, j_tags = tags data,
                   j_id = jid, j_is_active = True, j_views = 0, j_applications_count = 0,
                   j_created_at = now, j_updated_at = now\<rparr>
        in (case insert_one j_id doc (col_jobs db) of
              Inl e \<Rightarrow> (Inl e, db)
            | Inr jobs' \<Rightarrow>
                let db' = db\<lparr>col_jobs := jobs',
                            col_companies :=
                              update_one (\<lambda>c. c_id c = company_id data)
                                (\<lambda>c. c\<lparr>c_total_jobs_posted := c_total_jobs_posted c + 1\<rparr>)
                                (col_companies db)\<rparr>
                in (Inr \<lparr>cj_message = ''Job posted successfully'',
                         cj_job = enrich_job db' doc\<rparr>, db')))"

subsection \<open>POST /applications: the alternate field names\<close>

record ApplicationCreateCompat =
  job_id :: string
  full_name :: string
  email :: string
  google_access_token :: "string option"
  phone :: "string option"
  resume_url :: string
  cover_letter :: "string option"
  linkedin_url :: "string option"
  portfolio_url :: "string option"
  years_experience :: "pyfloat option"
  institution :: "string option"
  graduation_year :: "int option"

text \<open>The construction of \<open>mapped\<close>, lines 518 to 530.\<close>

definition mapped :: "ApplicationCreateCompat \<Rightarrow> ApplicationCreate" where
  "mapped data =
     \<lparr>applicant_name = full_name data,
      applicant_email = email data,
      ApplicationCreate.google_access_token = ApplicationCreateCompat.google_access_token data,
      ApplicationCreate.phone = ApplicationCreateCompat.phone data,
      ApplicationCreate.resume_url = ApplicationCreateCompat.resume_url data,
      ApplicationCreate.cover_letter = ApplicationCreateCompat.cover_letter data,
      ApplicationCreate.linkedin_url = ApplicationCreateCompat.linkedin_url data,
      ApplicationCreate.portfolio_url = ApplicationCreateCompat.portfolio_url data,
      years_of_experience = years_experience data,
      current_institution = institution data,
      ApplicationCreate.graduation_year = ApplicationCreateCompat.graduation_year data\<rparr>"

definition apply_for_job_compat ::
  "env \<Rightarrow> ApplicationCreateCompat \<Rightarrow> store \<Rightarrow> (error + apply_response) \<times> store" where
  "apply_for_job_compat w data db =
     (case submit_application w (job_id data) (mapped data) db of
        (Inl e, db') \<Rightarrow> (Inl e, db')
      | (Inr app_doc, db') \<Rightarrow>
          (Inr \<lparr>message = ''Application submitted successfully!'',
                application_id = a_id app_doc, application_of = app_doc\<rparr>, db'))"

text \<open>
  \<open>model_dump()\<close> of the two request models: the fields under the names the source
  gives them, in declaration order. \<open>job_id\<close> of the alternate shape is the route
  argument of the canonical entry point and is not part of the dumped applicant fields.
\<close>

datatype field_value =
    Str string
  | OptStr "string option"
  | OptFloat "pyfloat option"
  | OptInt "int option"

definition model_dump :: "ApplicationCreate \<Rightarrow> (string \<times> field_value) list" where
  "model_dump data =
     [(''applicant_name'', Str (applicant_name data)),
      (''applicant_email'', Str (applicant_email data)),
      (''google_access_token'', OptStr (ApplicationCreate.google_access_token data)),
      (''phone'', OptStr (ApplicationCreate.phone data)),
      (''resume_url'', Str (ApplicationCreate.resume_url data)),
      (''cover_letter'', OptStr (ApplicationCreate.cover_letter data)),
      (''linkedin_url'', OptStr (ApplicationCreate.linkedin_url data)),
      (''portfolio_url'', OptStr (ApplicationCreate.portfolio_url data)),
      (''years_of_experience'', OptFloat (years_of_experience data)),
      (''current_institution'', OptStr (current_institution data)),
      (''graduation_year'', OptInt (ApplicationCreate.graduation_year data))]"

definition model_dump_compat :: "ApplicationCreateCompat \<Rightarrow> (string \<times> field_value) list" where
  "model_dump_compat data =
     [(''full_name'', Str (full_name data)),
      (''email'', Str (email data)),
      (''google_access_token'', OptStr (ApplicationCreateCompat.google_access_token data)),
      (''phone'', OptStr (ApplicationCreateCompat.phone data)),
      (''resume_url'', Str (ApplicationCreateCompat.resume_url data)),
      (''cover_letter'', OptStr (ApplicationCreateCompat.cover_letter data)),
      (''linkedin_url'', OptStr (ApplicationCreateCompat.linkedin_url data)),
      (''portfolio_url'', OptStr (ApplicationCreateCompat.portfolio_url data)),
      (''years_experience'', OptFloat (years_experience data)),
      (''institution'', OptStr (institution data)),
      (''graduation_year'', OptInt (ApplicationCreateCompat.graduation_year data))]"

subsection \<open>Specification-side notions\<close>

text \<open>
  The renaming as the specification words it: full_name to applicant_name, email to
  applicant_email, years_experience to years_of_experience, institution to
  current_institution, every other name unchanged.
\<close>

definition spec_canonical_name :: "string \<Rightarrow> string" where
  "spec_canonical_name k =
     (if k = ''full_name'' then ''applicant_name''
      else if k = ''email'' then ''applicant_email''
      else if k = ''years_experience'' then ''years_of_experience''
      else if k = ''institution'' then ''current_institution''
      else k)"

definition spec_renamed :: "(string \<times> field_value) list \<Rightarrow> (string \<times> field_value) list" where
  "spec_renamed kvs = map (\<lambda>(k, v). (spec_canonical_name k, v)) kvs"

text \<open>The matching listings of a query: what \<open>col_jobs.find(q)\<close> ranges over.\<close>

definition found_jobs ::
  "(string \<Rightarrow> string \<Rightarrow> bool) \<Rightarrow> store \<Rightarrow> query \<Rightarrow> job list" where
  "found_jobs rx db q = filter (matches rx q) (col_jobs db)"

text \<open>
  The counter invariant of the data model: every stored job's \<open>applications_count\<close> is
  the number of stored applications that reference its identifier.
\<close>

definition applications_of :: "store \<Rightarrow> string \<Rightarrow> application list" where
  "applications_of db jid = filter (\<lambda>a. a_job_id a = jid) (col_applications db)"

definition counter_consistent :: "store \<Rightarrow> bool" where
  "counter_consistent db \<longleftrightarrow>
     list_all (\<lambda>L. j_applications_count L = int (length (applications_of db (j_id L))))
       (col_jobs db)"

text \<open>What the unique index on the jobs' \<open>id\<close> maintains.\<close>

definition unique_job_ids :: "store \<Rightarrow> bool" where
  "unique_job_ids db \<longleftrightarrow> distinct (map j_id (col_jobs db))"

text \<open>The same request with no identity token.\<close>

definition without_token :: "ApplicationCreate \<Rightarrow> ApplicationCreate" where
  "without_token data = data\<lparr>ApplicationCreate.google_access_token := None\<rparr>"

subsection \<open>Sample data\<close>

definition acme :: company where
  "acme = \<lparr>c_name = ''Acme'', c_industry = ''Tech'', c_website = None, c_description = None,
     c_logo_url = None, c_location = ''X'', c_id = ''C1'', c_created_at = 0,
     c_total_jobs_posted = 1\<rparr>"

definition engineer :: job where
  "engineer = \<lparr>j_title = ''Engineer'', j_company_id = ''C1'', j_category = ''Technology'',
     j_job_type = ''Full-Time'', j_experience_level = ''Entry Level'', j_location = ''X'',
     j_is_remote = False, j_description = ''Build things'', j_responsibilities = [],
     j_requirements = [], j_nice_to_have = Some [], j_salary_min = Some 10,
     j_salary_max = Some 20, j_salary_currency = ''INR'', j_application_deadline = None,
     j_openings = 1, j_tags = Some [], j_id = ''J1'', j_is_active = True, j_views = 0,
     j_applications_count = 0, j_created_at = 1, j_updated_at = 1\<rparr>"

definition alice :: ApplicationCreate where
  "alice = \<lparr>applicant_name = ''Alice'', applicant_email = ''a@x.com'',
     ApplicationCreate.google_access_token = None, ApplicationCreate.phone = None,
     ApplicationCreate.resume_url = ''http://r'', ApplicationCreate.cover_letter = None,
     ApplicationCreate.linkedin_url = None, ApplicationCreate.portfolio_url = None,
     years_of_experience = Some 0, current_institution = None,
     ApplicationCreate.graduation_year = None\<rparr>"

definition alice_with_token :: ApplicationCreate where
  "alice_with_token = alice\<lparr>ApplicationCreate.google_access_token := Some ''tok''\<rparr>"

definition alice_compat :: ApplicationCreateCompat where
  "alice_compat = \<lparr>job_id = ''J1'', full_name = ''Alice'', email = ''a@x.com'',
     ApplicationCreateCompat.google_access_token = None, ApplicationCreateCompat.phone = None,
     ApplicationCreateCompat.resume_url = ''http://r'',
     ApplicationCreateCompat.cover_letter = None,
     ApplicationCreateCompat.linkedin_url = None,
     ApplicationCreateCompat.portfolio_url = None,
     years_experience = Some 0, institution = None,
     ApplicationCreateCompat.graduation_year = None\<rparr>"

definition db1 :: store where
  "db1 = \<lparr>col_companies = [acme], col_jobs = [engineer], col_applications = [],
     col_bookmarks = []\<rparr>"

definition env_with :: "http_outcome \<Rightarrow> env" where
  "env_with reply = \<lparr>tokeninfo = (\<lambda>t. reply), uuid4 = ''A1'', utcnow = 5\<rparr>"

definition env1 :: env where
  "env1 = env_with RequestFailed"

text \<open>Alice's stored application for J1, and a store in which J1 has since been closed.\<close>

definition alice_application :: application where
  "alice_application = ApplicationCreate.extend alice
     (application.fields ''A0'' ''J1'' ''Engineer'' ''Acme'' pending 2 2 None)"

definition db_closed :: store where
  "db_closed = \<lparr>col_companies = [acme],
     col_jobs = [engineer\<lparr>j_is_active := False, j_applications_count := 1\<rparr>],
     col_applications = [alice_application], col_bookmarks = []\<rparr>"

definition db_applied :: store where
  "db_applied = \<lparr>col_companies = [acme],
     col_jobs = [engineer\<lparr>j_applications_count := 1\<rparr>],
     col_applications = [alice_application], col_bookmarks = []\<rparr>"

definition alice_bookmark :: bookmark where
  "alice_bookmark = \<lparr>b_student_email = ''a@x.com'', b_job_id = ''J1'', b_saved_at = 3\<rparr>"

definition db_bookmarked :: store where
  "db_bookmarked = db_applied\<lparr>col_bookmarks := [alice_bookmark]\<rparr>"

definition engineer_post :: JobCreate where
  "engineer_post = \<lparr>title = ''Engineer II'', company_id = ''C1'', category = technology,
     job_type = full_time, experience_level = mid, location = ''X'', is_remote = False,
     description = ''Build more'', responsibilities = [], requirements = [],
     nice_to_have = Some [], salary_min = None, salary_max = None,
     salary_currency = ''INR'', application_deadline = Some (Date 2025 9 30),
     openings = 1, tags = Some []\<rparr>"

text \<open>Twenty-five listings with distinct identifiers, the \<open>n\<close>-th created at time \<open>n\<close>.\<close>

definition listing :: "nat \<Rightarrow> job" where
  "listing n = engineer\<lparr>j_id := replicate (Suc n) CHR ''j'', j_created_at := int n\<rparr>"

definition db25 :: store where
  "db25 = \<lparr>col_companies = [acme], col_jobs = map listing [0..<25], col_applications = [],
     col_bookmarks = []\<rparr>"

definition any_rx :: "string \<Rightarrow> string \<Rightarrow> bool" where
  "any_rx pat s = True"

text \<open>Three listings whose maximum salary is 20, undefined and 19.\<close>

definition db_salaries :: store where
  "db_salaries = \<lparr>col_companies = [acme],
     col_jobs = [engineer, engineer\<lparr>j_id := ''J2'', j_salary_max := None\<rparr>,
       engineer\<lparr>j_id := ''J3'', j_salary_max := Some 19\<rparr>],
     col_applications = [], col_bookmarks = []\<rparr>"

section \<open>Properties\<close>

subsection \<open>Collections\<close>

lemma find_one_None_iff: "find_one P xs = None \<longleftrightarrow> (\<forall>x\<in>set xs. \<not> P x)"
  by (auto simp: find_one_def find_None_iff)

lemma find_one_SomeD:
  "find_one P xs = Some x \<Longrightarrow> \<exists>pre post. xs = pre @ x # post \<and> P x \<and> (\<forall>y\<in>set pre. \<not> P y)"
proof (induction xs)
  case Nil
  then show ?case by (simp add: find_one_def)
next
  case (Cons a xs)
  show ?case
  proof (cases "P a")
    case True
    with Cons.prems have "a = x" by (simp add: find_one_def)
    with True have "a # xs = [] @ x # xs \<and> P x \<and> (\<forall>y\<in>set []. \<not> P y)" by simp
    then show ?thesis by blast
  next
    case False
    with Cons.prems have "find_one P xs = Some x" by (simp add: find_one_def)
    from Cons.IH[OF this] obtain pre post where
      "xs = pre @ x # post" "P x" "\<forall>y\<in>set pre. \<not> P y" by blast
    with False have "a # xs = (a # pre) @ x # post \<and> P x \<and> (\<forall>y\<in>set (a # pre). \<not> P y)"
      by simp
    then show ?thesis by blast
  qed
qed

lemma update_one_first:
  "P x \<Longrightarrow> \<forall>y\<in>set pre. \<not> P y \<Longrightarrow> update_one P f (pre @ x # post) = pre @ f x # post"
  by (induction pre) simp_all

lemma update_one_absent: "\<forall>y\<in>set xs. \<not> P y \<Longrightarrow> update_one P f xs = xs"
  by (induction xs) simp_all

lemma delete_one_first:
  "P x \<Longrightarrow> \<forall>y\<in>set pre. \<not> P y \<Longrightarrow> delete_one P (pre @ x # post) = (1, pre @ post)"
  by (induction pre) simp_all

lemma delete_one_absent: "\<forall>y\<in>set xs. \<not> P y \<Longrightarrow> delete_one P xs = (0, xs)"
  by (induction xs) simp_all

subsection \<open>The application workflow\<close>

lemma google_verification_errors:
  "google_verification w data = Some e \<Longrightarrow>
     e = HTTPException 401 ''Invalid Google authentication token.'' \<or>
     e = HTTPException 403 ''Email mismatch with Google account.''"
  by (auto simp: google_verification_def
      split: option.splits if_splits http_outcome.splits json_body.splits)

text \<open>What a successful submission did: the checks it passed and the store it left.\<close>

lemma submit_success:
  assumes "submit_application w J data db = (Inr a, db')"
  shows "\<exists>job. find_one (\<lambda>j. j_id j = J) (col_jobs db) = Some job \<and> j_is_active job \<and>
           google_verification w data = None \<and>
           find_one (\<lambda>a. a_job_id a = J \<and> applicant_email a = applicant_email data)
             (col_applications db) = None \<and>
           a_id a \<notin> a_id ` set (col_applications db) \<and>
           a = ApplicationCreate.extend data
                 (application.fields (uuid4 w) J (j_title job)
                    (case find_one (\<lambda>c. c_id c = j_company_id job) (col_companies db) of
                       Some c \<Rightarrow> c_name c | None \<Rightarrow> ''Unknown'')
                    pending (utcnow w) (utcnow w) None) \<and>
           db' = db\<lparr>col_applications := col_applications db @ [a],
                    col_jobs := update_one (\<lambda>j. j_id j = J)
                      (\<lambda>j. j\<lparr>j_applications_count := j_applications_count j + 1\<rparr>) (col_jobs db)\<rparr>"
  using assms
  by (auto simp: submit_application_def insert_one_def Let_def
      split: option.splits if_splits)

lemma submit_closed_listing:
  "submit_application w ''J1'' data db_closed =
     (Inl (HTTPException 400 ''This job listing is no longer active''), db_closed)"
  by (simp add: submit_application_def db_closed_def find_one_def engineer_def)

lemma rejected_token:
  "google_verification (env_with (Response 401 NotJson)) alice_with_token =
     Some (HTTPException 401 ''Invalid Google authentication token.'')"
  by (simp add: google_verification_def env_with_def alice_with_token_def alice_def)

lemma db_applied_job:
  "find_one (\<lambda>j. j_id j = ''J1'') (col_jobs db_applied) =
     Some (engineer\<lparr>j_applications_count := 1\<rparr>)"
  by (simp add: db_applied_def find_one_def engineer_def)

lemma db_applied_duplicate:
  "find_one (\<lambda>a. a_job_id a = ''J1'' \<and> applicant_email a = ''a@x.com'')
     (col_applications db_applied) = Some alice_application"
  by (simp add: db_applied_def find_one_def alice_application_def alice_def
      ApplicationCreate.defs application.defs)

lemma first_submission:
  "submit_application env1 ''J1'' alice db1 =
     (Inr (alice_application\<lparr>a_id := ''A1'', a_applied_at := 5, a_updated_at := 5\<rparr>),
      db_applied\<lparr>col_applications :=
        [alice_application\<lparr>a_id := ''A1'', a_applied_at := 5, a_updated_at := 5\<rparr>]\<rparr>)"
  by (simp add: submit_application_def db1_def db_applied_def find_one_def engineer_def
      env1_def env_with_def google_verification_def alice_def insert_one_def Let_def acme_def
      alice_application_def ApplicationCreate.defs application.defs)

lemma no_token_no_verification: "google_verification env1 alice = None"
  by (simp add: google_verification_def alice_def)

lemma db1_job: "find_one (\<lambda>j. j_id j = ''J1'') (col_jobs db1) = Some engineer"
  by (simp add: db1_def find_one_def engineer_def)

lemma db1_no_such_job: "find_one (\<lambda>j. j_id j = ''nope'') (col_jobs db1) = None"
  by (simp add: db1_def find_one_def engineer_def)

lemma db_closed_job:
  "find_one (\<lambda>j. j_id j = ''J1'') (col_jobs db_closed) =
     Some (engineer\<lparr>j_is_active := False, j_applications_count := 1\<rparr>)"
  by (simp add: db_closed_def find_one_def engineer_def)

text \<open>
  C9. Every failing path of \<open>_submit_application\<close> (404, 400, 401, 403, 409, and a
  rejected insert) returns the store it was given: whenever the result is an error the
  store is unchanged, and a store that changed is the store of a success, which holds
  exactly one more application and one incremented counter.
\<close>

theorem submit_failure_leaves_store:
  "(\<forall>e. fst (submit_application w J data db) = Inl e \<longrightarrow>
      snd (submit_application w J data db) = db) \<and>
   (snd (submit_application w J data db) \<noteq> db \<longrightarrow>
      (\<exists>a. fst (submit_application w J data db) = Inr a \<and>
         col_applications (snd (submit_application w J data db)) = col_applications db @ [a] \<and>
         col_jobs (snd (submit_application w J data db)) =
           update_one (\<lambda>j. j_id j = J)
             (\<lambda>j. j\<lparr>j_applications_count := j_applications_count j + 1\<rparr>) (col_jobs db)))"
proof (cases "submit_application w J data db")
  case (Pair r db')
  show ?thesis
  proof (cases r)
    case (Inl e)
    with Pair have "db' = db"
      by (auto simp: submit_application_def insert_one_def Let_def
          split: option.splits if_splits)
    with Pair Inl show ?thesis by simp
  next
    case (Inr a)
    with Pair have "submit_application w J data db = (Inr a, db')" by simp
    from submit_success[OF this] Pair Inr show ?thesis by auto
  qed
qed

theorem submit_failure_leaves_store_witness:
  "fst (submit_application env1 ''J1'' alice db_closed) =
     Inl (HTTPException 400 ''This job listing is no longer active'') \<and>
   snd (submit_application env1 ''J1'' alice db_closed) = db_closed \<and>
   snd (submit_application env1 ''J1'' alice db1) \<noteq> db1 \<and>
   (\<exists>a. fst (submit_application env1 ''J1'' alice db1) = Inr a \<and>
      col_applications (snd (submit_application env1 ''J1'' alice db1)) = [a] \<and>
      map j_applications_count (col_jobs (snd (submit_application env1 ''J1'' alice db1))) = [1])"
proof -
  have failed: "fst (submit_application env1 ''J1'' alice db_closed) =
      Inl (HTTPException 400 ''This job listing is no longer active'')"
    by (simp add: submit_closed_listing)
  with submit_failure_leaves_store[of env1 "''J1''" alice db_closed]
  have same: "snd (submit_application env1 ''J1'' alice db_closed) = db_closed" by blast
  have "col_applications (snd (submit_application env1 ''J1'' alice db1)) \<noteq> []"
    by (simp add: first_submission)
  moreover have "col_applications db1 = []" by (simp add: db1_def)
  ultimately
  have "col_applications (snd (submit_application env1 ''J1'' alice db1)) \<noteq> col_applications db1"
    by simp
  then have changed: "snd (submit_application env1 ''J1'' alice db1) \<noteq> db1" by auto
  with submit_failure_leaves_store[of env1 "''J1''" alice db1] obtain a where
    a: "fst (submit_application env1 ''J1'' alice db1) = Inr a"
      "col_applications (snd (submit_application env1 ''J1'' alice db1)) = col_applications db1 @ [a]"
      "col_jobs (snd (submit_application env1 ''J1'' alice db1)) =
         update_one (\<lambda>j. j_id j = ''J1'')
           (\<lambda>j. j\<lparr>j_applications_count := j_applications_count j + 1\<rparr>) (col_jobs db1)"
    by blast
  from a(2) have apps: "col_applications (snd (submit_application env1 ''J1'' alice db1)) = [a]"
    by (simp add: db1_def)
  from a(3)
  have cnt: "map j_applications_count (col_jobs (snd (submit_application env1 ''J1'' alice db1))) = [1]"
    by (simp add: db1_def engineer_def)
  have "\<exists>a. fst (submit_application env1 ''J1'' alice db1) = Inr a \<and>
      col_applications (snd (submit_application env1 ''J1'' alice db1)) = [a] \<and>
      map j_applications_count (col_jobs (snd (submit_application env1 ''J1'' alice db1))) = [1]"
    by (intro exI[of _ a] conjI) (rule a(1) apps cnt)+
  with failed same changed show ?thesis by (intro conjI)
qed

text \<open>
  C3. The failure checks of \<open>_submit_application\<close> run in a fixed order: an absent job
  is NotFound (404) whatever else holds; a job whose \<open>is_active\<close> is false is rejected
  (400) whatever the applicant data, the token service or the stored applications are;
  next a verification failure (401 or 403) is reported whether or not the applicant
  already applied; the duplicate Conflict (409) is reported only after these.
\<close>

theorem submit_check_order:
  "(find_one (\<lambda>j. j_id j = J) (col_jobs db) = None \<longrightarrow>
      submit_application w J data db = (Inl (HTTPException 404 ''Job not found''), db)) \<and>
   (\<forall>job. find_one (\<lambda>j. j_id j = J) (col_jobs db) = Some job \<and> \<not> j_is_active job \<longrightarrow>
      submit_application w J data db =
        (Inl (HTTPException 400 ''This job listing is no longer active''), db)) \<and>
   (\<forall>job e. find_one (\<lambda>j. j_id j = J) (col_jobs db) = Some job \<and> j_is_active job \<and>
        google_verification w data = Some e \<longrightarrow>
      submit_application w J data db = (Inl e, db) \<and>
      (e = HTTPException 401 ''Invalid Google authentication token.'' \<or>
       e = HTTPException 403 ''Email mismatch with Google account.'')) \<and>
   (\<forall>job. find_one (\<lambda>j. j_id j = J) (col_jobs db) = Some job \<and> j_is_active job \<and>
        google_verification w data = None \<and>
        find_one (\<lambda>a. a_job_id a = J \<and> applicant_email a = applicant_email data)
          (col_applications db) \<noteq> None \<longrightarrow>
      submit_application w J data db =
        (Inl (HTTPException 409 ''You have already applied for this job''), db))"
  using google_verification_errors[of w data]
  by (auto simp: submit_application_def)

theorem submit_check_order_witness:
  "submit_application env1 ''nope'' alice db1 = (Inl (HTTPException 404 ''Job not found''), db1) \<and>
   submit_application (env_with (Response 401 NotJson)) ''J1'' alice_with_token db_closed =
     (Inl (HTTPException 400 ''This job listing is no longer active''), db_closed) \<and>
   find_one (\<lambda>a. a_job_id a = ''J1'' \<and> applicant_email a = applicant_email alice_with_token)
     (col_applications db_applied) \<noteq> None \<and>
   submit_application (env_with (Response 401 NotJson)) ''J1'' alice_with_token db_applied =
     (Inl (HTTPException 401 ''Invalid Google authentication token.''), db_applied) \<and>
   submit_application env1 ''J1'' alice db_applied =
     (Inl (HTTPException 409 ''You have already applied for this job''), db_applied)"
proof -
  have dup: "find_one (\<lambda>a. a_job_id a = ''J1'' \<and> applicant_email a = applicant_email alice_with_token)
      (col_applications db_applied) \<noteq> None"
    using db_applied_duplicate by (simp add: alice_with_token_def alice_def)
  have dup': "find_one (\<lambda>a. a_job_id a = ''J1'' \<and> applicant_email a = applicant_email alice)
      (col_applications db_applied) \<noteq> None"
    using db_applied_duplicate by (simp add: alice_def)
  have active: "j_is_active (engineer\<lparr>j_applications_count := 1\<rparr>)"
    by (simp add: engineer_def)
  have closed: "\<not> j_is_active (engineer\<lparr>j_is_active := False, j_applications_count := 1\<rparr>)"
    by simp
  from submit_check_order[of "''nope''" db1 env1 alice] db1_no_such_job
  have c404: "submit_application env1 ''nope'' alice db1 =
      (Inl (HTTPException 404 ''Job not found''), db1)"
    by blast
  from submit_check_order[of "''J1''" db_closed "env_with (Response 401 NotJson)" alice_with_token]
    db_closed_job closed
  have c400: "submit_application (env_with (Response 401 NotJson)) ''J1'' alice_with_token db_closed =
     (Inl (HTTPException 400 ''This job listing is no longer active''), db_closed)"
    by blast
  from submit_check_order[of "''J1''" db_applied "env_with (Response 401 NotJson)" alice_with_token]
    db_applied_job active rejected_token
  have c401: "submit_application (env_with (Response 401 NotJson)) ''J1'' alice_with_token db_applied =
      (Inl (HTTPException 401 ''Invalid Google authentication token.''), db_applied)"
    by blast
  from submit_check_order[of "''J1''" db_applied env1 alice]
    db_applied_job active no_token_no_verification dup'
  have c409: "submit_application env1 ''J1'' alice db_applied =
     (Inl (HTTPException 409 ''You have already applied for this job''), db_applied)"
    by blast
  from c404 c400 dup c401 c409 show ?thesis by simp
qed

lemma find_one_update_one:
  assumes "\<And>x. P (f x) = P x"
  shows "find_one P (update_one P f xs) = map_option f (find_one P xs)"
  using assms by (induction xs) (simp_all add: find_one_def)

lemma set_update_one_key:
  assumes "\<And>x. k (f x) = k x"
  shows "map k (update_one P f xs) = map k xs"
  using assms by (induction xs) simp_all

lemma submit_twice:
  assumes first: "submit_application w J data db = (Inr a, db')"
    and same: "applicant_email (data2 :: ApplicationCreate) = applicant_email data"
  shows "\<exists>e. submit_application w2 J data2 db' = (Inl e, db') \<and>
           (google_verification w2 data2 = None \<longrightarrow>
              e = HTTPException 409 ''You have already applied for this job'')"
proof -
  from submit_success[OF first] obtain job where
    job: "find_one (\<lambda>j. j_id j = J) (col_jobs db) = Some job" "j_is_active job"
    and a: "a = ApplicationCreate.extend data
                 (application.fields (uuid4 w) J (j_title job)
                    (case find_one (\<lambda>c. c_id c = j_company_id job) (col_companies db) of
                       Some c \<Rightarrow> c_name c | None \<Rightarrow> ''Unknown'')
                    pending (utcnow w) (utcnow w) None)"
    and db': "db' = db\<lparr>col_applications := col_applications db @ [a],
                    col_jobs := update_one (\<lambda>j. j_id j = J)
                      (\<lambda>j. j\<lparr>j_applications_count := j_applications_count j + 1\<rparr>) (col_jobs db)\<rparr>"
    by blast
  let ?inc = "\<lambda>j. j\<lparr>j_applications_count := j_applications_count j + 1\<rparr>"
  have "find_one (\<lambda>j. j_id j = J) (col_jobs db') = Some (?inc job)"
    using job(1) db' find_one_update_one[of "\<lambda>j. j_id j = J" ?inc "col_jobs db"] by simp
  moreover have "j_is_active (?inc job)" using job(2) by simp
  moreover have "a_job_id a = J \<and> applicant_email a = applicant_email data2"
    using a same by (simp add: ApplicationCreate.defs application.defs)
  then have "find_one (\<lambda>a. a_job_id a = J \<and> applicant_email a = applicant_email data2)
      (col_applications db') \<noteq> None"
    using db' by (auto simp: find_one_None_iff)
  ultimately show ?thesis
    by (cases "google_verification w2 data2") (simp_all add: submit_application_def)
qed

text \<open>
  C1 (as amended). When an application for the pair (job identifier, applicant email)
  is already stored, a submission for that pair always fails and stores nothing; the
  failure is Conflict (409) when the job exists, is active and the identity
  verification does not reject, because the three earlier checks report first. When no
  application for the pair is stored, the job exists and is active, verification does
  not reject and the new identifier is unused, the submission succeeds and appends one
  application for the pair. Right after a success, a second submission for the same
  pair fails and stores nothing, with Conflict unless verification rejects it.
\<close>

theorem duplicate_application_rejected:
  "((\<exists>x\<in>set (col_applications db). a_job_id x = J \<and> applicant_email x = applicant_email data) \<longrightarrow>
      (\<exists>e. submit_application w J data db = (Inl e, db)) \<and>
      (\<forall>job. find_one (\<lambda>j. j_id j = J) (col_jobs db) = Some job \<and> j_is_active job \<and>
          google_verification w data = None \<longrightarrow>
        submit_application w J data db =
          (Inl (HTTPException 409 ''You have already applied for this job''), db))) \<and>
   (\<not> (\<exists>x\<in>set (col_applications db). a_job_id x = J \<and> applicant_email x = applicant_email data) \<and>
    (\<exists>job. find_one (\<lambda>j. j_id j = J) (col_jobs db) = Some job \<and> j_is_active job) \<and>
    google_verification w data = None \<and> uuid4 w \<notin> a_id ` set (col_applications db) \<longrightarrow>
      (\<exists>a. fst (submit_application w J data db) = Inr a \<and> a_job_id a = J \<and>
         applicant_email a = applicant_email data \<and>
         col_applications (snd (submit_application w J data db)) = col_applications db @ [a])) \<and>
   (\<forall>a db' w2 data2. submit_application w J data db = (Inr a, db') \<and>
        applicant_email data2 = applicant_email data \<longrightarrow>
      (\<exists>e. submit_application w2 J data2 db' = (Inl e, db') \<and>
         (google_verification w2 data2 = None \<longrightarrow>
            e = HTTPException 409 ''You have already applied for this job'')))"
proof (intro conjI impI allI)
  assume dup: "\<exists>x\<in>set (col_applications db). a_job_id x = J \<and> applicant_email x = applicant_email data"
  then have found: "find_one (\<lambda>a. a_job_id a = J \<and> applicant_email a = applicant_email data)
      (col_applications db) \<noteq> None"
    by (simp add: find_one_None_iff)
  then show "\<exists>e. submit_application w J data db = (Inl e, db)"
    by (auto simp: submit_application_def split: option.splits)
  fix job
  assume "find_one (\<lambda>j. j_id j = J) (col_jobs db) = Some job \<and> j_is_active job \<and>
          google_verification w data = None"
  with found show "submit_application w J data db =
          (Inl (HTTPException 409 ''You have already applied for this job''), db)"
    by (simp add: submit_application_def)
next
  assume h: "\<not> (\<exists>x\<in>set (col_applications db). a_job_id x = J \<and> applicant_email x = applicant_email data) \<and>
    (\<exists>job. find_one (\<lambda>j. j_id j = J) (col_jobs db) = Some job \<and> j_is_active job) \<and>
    google_verification w data = None \<and> uuid4 w \<notin> a_id ` set (col_applications db)"
  then have none: "find_one (\<lambda>a. a_job_id a = J \<and> applicant_email a = applicant_email data)
      (col_applications db) = None"
    by (simp add: find_one_None_iff)
  from h obtain job where "find_one (\<lambda>j. j_id j = J) (col_jobs db) = Some job" "j_is_active job"
    by blast
  with h none show "\<exists>a. fst (submit_application w J data db) = Inr a \<and> a_job_id a = J \<and>
         applicant_email a = applicant_email data \<and>
         col_applications (snd (submit_application w J data db)) = col_applications db @ [a]"
    by (simp add: submit_application_def insert_one_def Let_def
        ApplicationCreate.defs application.defs)
next
  fix a db' w2 and data2 :: ApplicationCreate
  assume "submit_application w J data db = (Inr a, db') \<and>
        applicant_email data2 = applicant_email data"
  then show "\<exists>e. submit_application w2 J data2 db' = (Inl e, db') \<and>
         (google_verification w2 data2 = None \<longrightarrow>
            e = HTTPException 409 ''You have already applied for this job'')"
    using submit_twice by blast
qed

theorem duplicate_application_rejected_witness:
  "submit_application env1 ''J1'' alice db1 =
     (Inr (alice_application\<lparr>a_id := ''A1'', a_applied_at := 5, a_updated_at := 5\<rparr>),
      db_applied\<lparr>col_applications :=
        [alice_application\<lparr>a_id := ''A1'', a_applied_at := 5, a_updated_at := 5\<rparr>]\<rparr>) \<and>
   submit_application env1 ''J1'' alice
     (db_applied\<lparr>col_applications :=
        [alice_application\<lparr>a_id := ''A1'', a_applied_at := 5, a_updated_at := 5\<rparr>]\<rparr>) =
     (Inl (HTTPException 409 ''You have already applied for this job''),
      db_applied\<lparr>col_applications :=
        [alice_application\<lparr>a_id := ''A1'', a_applied_at := 5, a_updated_at := 5\<rparr>]\<rparr>) \<and>
   submit_application env1 ''J1'' alice db_applied =
     (Inl (HTTPException 409 ''You have already applied for this job''), db_applied) \<and>
   col_applications db1 = [] \<and>
   (\<exists>a. fst (submit_application env1 ''J1'' alice db1) = Inr a \<and> a_job_id a = ''J1'' \<and>
      applicant_email a = applicant_email alice)"
proof -
  from duplicate_application_rejected[of db1 "''J1''" alice env1] first_submission
  have "\<exists>e. submit_application env1 ''J1'' alice
     (db_applied\<lparr>col_applications :=
        [alice_application\<lparr>a_id := ''A1'', a_applied_at := 5, a_updated_at := 5\<rparr>]\<rparr>) =
     (Inl e, db_applied\<lparr>col_applications :=
        [alice_application\<lparr>a_id := ''A1'', a_applied_at := 5, a_updated_at := 5\<rparr>]\<rparr>) \<and>
     (google_verification env1 alice = None \<longrightarrow>
        e = HTTPException 409 ''You have already applied for this job'')"
    by blast
  with no_token_no_verification
  have second: "submit_application env1 ''J1'' alice
     (db_applied\<lparr>col_applications :=
        [alice_application\<lparr>a_id := ''A1'', a_applied_at := 5, a_updated_at := 5\<rparr>]\<rparr>) =
     (Inl (HTTPException 409 ''You have already applied for this job''),
      db_applied\<lparr>col_applications :=
        [alice_application\<lparr>a_id := ''A1'', a_applied_at := 5, a_updated_at := 5\<rparr>]\<rparr>)"
    by auto
  have stored: "\<exists>x\<in>set (col_applications db_applied).
      a_job_id x = ''J1'' \<and> applicant_email x = applicant_email alice"
    by (simp add: db_applied_def alice_application_def ApplicationCreate.defs application.defs)
  have active: "j_is_active (engineer\<lparr>j_applications_count := 1\<rparr>)"
    by (simp add: engineer_def)
  from duplicate_application_rejected[of db_applied "''J1''" alice env1] stored
    db_applied_job active no_token_no_verification
  have dup: "submit_application env1 ''J1'' alice db_applied =
     (Inl (HTTPException 409 ''You have already applied for this job''), db_applied)"
    by blast
  have empty: "col_applications db1 = []" by (simp add: db1_def)
  have active1: "j_is_active engineer" by (simp add: engineer_def)
  have fresh: "uuid4 env1 \<notin> a_id ` set (col_applications db1)" by (simp add: db1_def)
  have none: "\<not> (\<exists>x\<in>set (col_applications db1).
      a_job_id x = ''J1'' \<and> applicant_email x = applicant_email alice)"
    by (simp add: db1_def)
  from duplicate_application_rejected[of db1 "''J1''" alice env1] none db1_job active1
    no_token_no_verification fresh
  have ok: "\<exists>a. fst (submit_application env1 ''J1'' alice db1) = Inr a \<and> a_job_id a = ''J1'' \<and>
      applicant_email a = applicant_email alice"
    by blast
  from first_submission second dup empty ok show ?thesis by (intro conjI)
qed

text \<open>
  C1 as stated fails: with Alice's application for J1 stored and J1 since deactivated,
  her submission for J1 is answered 400 (inactive listing), not 409.
\<close>

theorem duplicate_on_closed_listing:
  "col_applications db_closed = [alice_application] \<and> a_job_id alice_application = ''J1'' \<and>
   applicant_email alice_application = applicant_email alice \<and>
   submit_application env1 ''J1'' alice db_closed =
     (Inl (HTTPException 400 ''This job listing is no longer active''), db_closed) \<and>
   fst (submit_application env1 ''J1'' alice db_closed) \<noteq>
     Inl (HTTPException 409 ''You have already applied for this job'')"
proof -
  have "col_applications db_closed = [alice_application]"
    by (simp add: db_closed_def)
  moreover have "a_job_id alice_application = ''J1'' \<and>
      applicant_email alice_application = applicant_email alice"
    by (simp add: alice_application_def ApplicationCreate.defs application.defs)
  ultimately show ?thesis
    by (simp add: submit_closed_listing)
qed


lemma applications_of_append:
  "applications_of (db\<lparr>col_applications := col_applications db @ [a], col_jobs := js\<rparr>) jid =
     applications_of db jid @ (if a_job_id a = jid then [a] else [])"
  by (simp add: applications_of_def)

text \<open>
  C2. A successful submission inserts exactly one application, which references the
  job applied to, and increments that job's \<open>applications_count\<close> by exactly one,
  leaving every other job document as it was. So, with job identifiers unique (the
  unique index) and no other writer, the invariant that every job's counter equals the
  number of stored applications referencing it holds again after each successful
  submission.
\<close>

theorem submit_keeps_counter:
  "unique_job_ids db \<and> counter_consistent db \<and> submit_application w J data db = (Inr a, db') \<longrightarrow>
     counter_consistent db' \<and> unique_job_ids db' \<and>
     col_applications db' = col_applications db @ [a] \<and> a_job_id a = J \<and>
     length (applications_of db' J) = length (applications_of db J) + 1 \<and>
     (\<exists>job pre post. col_jobs db = pre @ job # post \<and> j_id job = J \<and>
        col_jobs db' = pre @ job\<lparr>j_applications_count := j_applications_count job + 1\<rparr> # post)"
proof (intro impI)
  assume h: "unique_job_ids db \<and> counter_consistent db \<and>
    submit_application w J data db = (Inr a, db')"
  let ?inc = "\<lambda>j. j\<lparr>j_applications_count := j_applications_count j + 1\<rparr>"
  from h have sub: "submit_application w J data db = (Inr a, db')" by simp
  from submit_success[OF sub] obtain job where
    job: "find_one (\<lambda>j. j_id j = J) (col_jobs db) = Some job"
    and a: "a = ApplicationCreate.extend data
                 (application.fields (uuid4 w) J (j_title job)
                    (case find_one (\<lambda>c. c_id c = j_company_id job) (col_companies db) of
                       Some c \<Rightarrow> c_name c | None \<Rightarrow> ''Unknown'')
                    pending (utcnow w) (utcnow w) None)"
    and db': "db' = db\<lparr>col_applications := col_applications db @ [a],
                    col_jobs := update_one (\<lambda>j. j_id j = J) ?inc (col_jobs db)\<rparr>"
    by blast
  from a have aJ: "a_job_id a = J" by (simp add: ApplicationCreate.defs application.defs)
  from find_one_SomeD[OF job] obtain pre post where
    split: "col_jobs db = pre @ job # post" and jJ: "j_id job = J"
    and pre: "\<forall>y\<in>set pre. j_id y \<noteq> J" by blast
  from h split have "j_id job \<notin> j_id ` set post"
    by (simp add: unique_job_ids_def)
  with jJ have post: "\<forall>y\<in>set post. j_id y \<noteq> J"
    by (metis imageI)
  have jobs': "col_jobs db' = pre @ ?inc job # post"
    using db' split jJ pre update_one_first[of "\<lambda>j. j_id j = J" job pre ?inc post] by simp
  have apps: "\<And>jid. applications_of db' jid =
      applications_of db jid @ (if jid = J then [a] else [])"
    using db' aJ by (auto simp: applications_of_append)
  from h split have cc: "list_all (\<lambda>L. j_applications_count L =
      int (length (applications_of db (j_id L)))) (pre @ job # post)"
    by (simp add: counter_consistent_def)
  have "counter_consistent db'"
    unfolding counter_consistent_def jobs'
    using cc pre post jJ by (auto simp: apps list_all_iff)
  moreover have "unique_job_ids db'"
    using h split jobs' by (simp add: unique_job_ids_def)
  moreover have "col_applications db' = col_applications db @ [a]"
    using db' by simp
  moreover have "length (applications_of db' J) = length (applications_of db J) + 1"
    by (simp add: apps)
  ultimately show "counter_consistent db' \<and> unique_job_ids db' \<and>
     col_applications db' = col_applications db @ [a] \<and> a_job_id a = J \<and>
     length (applications_of db' J) = length (applications_of db J) + 1 \<and>
     (\<exists>job pre post. col_jobs db = pre @ job # post \<and> j_id job = J \<and>
        col_jobs db' = pre @ job\<lparr>j_applications_count := j_applications_count job + 1\<rparr> # post)"
    using aJ split jJ jobs' by blast
qed

lemma db1_consistent: "unique_job_ids db1 \<and> counter_consistent db1"
  by (simp add: unique_job_ids_def counter_consistent_def db1_def applications_of_def
      engineer_def)

theorem submit_keeps_counter_witness:
  "unique_job_ids db1 \<and> counter_consistent db1 \<and>
   counter_consistent (snd (submit_application env1 ''J1'' alice db1)) \<and>
   map j_applications_count (col_jobs (snd (submit_application env1 ''J1'' alice db1))) = [1] \<and>
   length (applications_of (snd (submit_application env1 ''J1'' alice db1)) ''J1'') = 1"
proof -
  let ?db' = "db_applied\<lparr>col_applications :=
        [alice_application\<lparr>a_id := ''A1'', a_applied_at := 5, a_updated_at := 5\<rparr>]\<rparr>"
  from submit_keeps_counter[of db1 env1 "''J1''" alice _ ?db'] db1_consistent first_submission
  have "counter_consistent ?db'" by blast
  moreover have "map j_applications_count (col_jobs ?db') = [1]"
    by (simp add: db_applied_def engineer_def)
  moreover have "length (applications_of ?db' ''J1'') = 1"
    by (simp add: applications_of_def alice_application_def
        ApplicationCreate.defs application.defs)
  ultimately show ?thesis using db1_consistent first_submission by simp
qed

subsection \<open>Fetching and deleting a job\<close>

lemma singleton_split: "[x] = pre @ y # post \<Longrightarrow> pre = [] \<and> post = []"
  by (cases pre) auto

text \<open>
  C7. \<open>get_job\<close> on an identifier that some stored job carries replaces the first such
  job by itself with \<open>views\<close> one higher and changes nothing else: no other field
  of that job, no other job, no company, application or bookmark. The job in the
  returned payload is that stored job after the increment, so the \<open>views\<close> it shows
  is the stored counter. On an identifier no job carries it fails with 404 and
  returns the store unchanged.
\<close>

theorem get_job_increments_views:
  "(find_one (\<lambda>j. j_id j = J) (col_jobs db) = None \<longrightarrow>
      get_job J db = (Inl (HTTPException 404 ''Job not found''), db)) \<and>
   (\<forall>job. find_one (\<lambda>j. j_id j = J) (col_jobs db) = Some job \<longrightarrow>
      (\<exists>pre post. col_jobs db = pre @ job # post \<and> (\<forall>x\<in>set pre. j_id x \<noteq> J) \<and>
         get_job J db =
           (Inr \<lparr>ej_job = job\<lparr>j_views := j_views job + 1\<rparr>,
                 ej_company = find_one (\<lambda>c. c_id c = j_company_id job) (col_companies db)\<rparr>,
            db\<lparr>col_jobs := pre @ job\<lparr>j_views := j_views job + 1\<rparr> # post\<rparr>)) \<and>
      find_one (\<lambda>j. j_id j = J) (col_jobs (snd (get_job J db))) =
        Some (job\<lparr>j_views := j_views job + 1\<rparr>))"
proof (intro conjI impI allI)
  assume "find_one (\<lambda>j. j_id j = J) (col_jobs db) = None"
  then show "get_job J db = (Inl (HTTPException 404 ''Job not found''), db)"
    by (simp add: get_job_def)
next
  fix job
  assume job: "find_one (\<lambda>j. j_id j = J) (col_jobs db) = Some job"
  let ?inc = "\<lambda>j. j\<lparr>j_views := j_views j + 1\<rparr>"
  from find_one_SomeD[OF job] obtain pre post where
    split: "col_jobs db = pre @ job # post" and jJ: "j_id job = J"
    and pre: "\<forall>y\<in>set pre. j_id y \<noteq> J" by blast
  have upd: "update_one (\<lambda>j. j_id j = J) ?inc (col_jobs db) = pre @ ?inc job # post"
    using split jJ pre update_one_first[of "\<lambda>j. j_id j = J" job pre ?inc post] by simp
  have "get_job J db =
           (Inr \<lparr>ej_job = ?inc job,
                 ej_company = find_one (\<lambda>c. c_id c = j_company_id job) (col_companies db)\<rparr>,
            db\<lparr>col_jobs := pre @ ?inc job # post\<rparr>)"
    using job upd by (simp add: get_job_def Let_def enrich_job_def)
  with split pre
  show "\<exists>pre post. col_jobs db = pre @ job # post \<and> (\<forall>x\<in>set pre. j_id x \<noteq> J) \<and>
         get_job J db =
           (Inr \<lparr>ej_job = job\<lparr>j_views := j_views job + 1\<rparr>,
                 ej_company = find_one (\<lambda>c. c_id c = j_company_id job) (col_companies db)\<rparr>,
            db\<lparr>col_jobs := pre @ job\<lparr>j_views := j_views job + 1\<rparr> # post\<rparr>)"
    by blast
  show "find_one (\<lambda>j. j_id j = J) (col_jobs (snd (get_job J db))) =
        Some (job\<lparr>j_views := j_views job + 1\<rparr>)"
    using job find_one_update_one[of "\<lambda>j. j_id j = J" ?inc "col_jobs db"]
    by (simp add: get_job_def Let_def)
qed

theorem get_job_increments_views_witness:
  "j_views engineer = 0 \<and>
   j_views (ej_job (projr (fst (get_job ''J1'' db1)))) = 1 \<and>
   snd (get_job ''J1'' db1) = db1\<lparr>col_jobs := [engineer\<lparr>j_views := 1\<rparr>]\<rparr> \<and>
   j_views (ej_job (projr (fst (get_job ''J1'' (snd (get_job ''J1'' db1)))))) = 2 \<and>
   j_views (ej_job (projr (fst (get_job ''J1''
      (snd (get_job ''J1'' (snd (get_job ''J1'' db1)))))))) = 3 \<and>
   get_job ''nope'' db1 = (Inl (HTTPException 404 ''Job not found''), db1)"
proof -
  have v0: "j_views engineer = 0" by (simp add: engineer_def)
  from get_job_increments_views[of "''J1''" db1] db1_job obtain pre post where
    "col_jobs db1 = pre @ engineer # post"
    and g: "get_job ''J1'' db1 =
           (Inr \<lparr>ej_job = engineer\<lparr>j_views := j_views engineer + 1\<rparr>,
                 ej_company = find_one (\<lambda>c. c_id c = j_company_id engineer) (col_companies db1)\<rparr>,
            db1\<lparr>col_jobs := pre @ engineer\<lparr>j_views := j_views engineer + 1\<rparr> # post\<rparr>)"
    by blast
  then have "pre = [] \<and> post = []" using singleton_split[of engineer pre engineer post]
    by (simp add: db1_def)
  with g v0 have g1: "get_job ''J1'' db1 =
           (Inr \<lparr>ej_job = engineer\<lparr>j_views := 1\<rparr>,
                 ej_company = find_one (\<lambda>c. c_id c = j_company_id engineer) (col_companies db1)\<rparr>,
            db1\<lparr>col_jobs := [engineer\<lparr>j_views := 1\<rparr>]\<rparr>)"
    by simp
  have g2: "get_job ''J1'' (db1\<lparr>col_jobs := [engineer\<lparr>j_views := 1\<rparr>]\<rparr>) =
           (Inr \<lparr>ej_job = engineer\<lparr>j_views := 2\<rparr>,
                 ej_company = find_one (\<lambda>c. c_id c = j_company_id engineer) (col_companies db1)\<rparr>,
            db1\<lparr>col_jobs := [engineer\<lparr>j_views := 2\<rparr>]\<rparr>)"
    by (simp add: get_job_def find_one_def engineer_def Let_def enrich_job_def)
  have g3: "get_job ''J1'' (db1\<lparr>col_jobs := [engineer\<lparr>j_views := 2\<rparr>]\<rparr>) =
           (Inr \<lparr>ej_job = engineer\<lparr>j_views := 3\<rparr>,
                 ej_company = find_one (\<lambda>c. c_id c = j_company_id engineer) (col_companies db1)\<rparr>,
            db1\<lparr>col_jobs := [engineer\<lparr>j_views := 3\<rparr>]\<rparr>)"
    by (simp add: get_job_def find_one_def engineer_def Let_def enrich_job_def)
  have g0: "get_job ''nope'' db1 = (Inl (HTTPException 404 ''Job not found''), db1)"
    by (simp add: get_job_def find_one_def engineer_def db1_def)
  show ?thesis by (simp add: v0 g0 g1 g2 g3)
qed

lemma delete_job_keeps_others:
  "col_companies (snd (delete_job J db)) = col_companies db \<and>
   col_applications (snd (delete_job J db)) = col_applications db \<and>
   col_bookmarks (snd (delete_job J db)) = col_bookmarks db"
  by (simp add: delete_job_def split: prod.split)

lemma create_job_success:
  assumes "create_job w data db = (Inr r, db')"
  shows "find_one (\<lambda>c. c_id c = company_id data) (col_companies db) \<noteq> None \<and>
         uuid4 w \<notin> j_id ` set (col_jobs db) \<and>
         j_id (ej_job (cj_job r)) = uuid4 w \<and>
         db' = db\<lparr>col_jobs := col_jobs db @ [ej_job (cj_job r)],
                  col_companies := update_one (\<lambda>c. c_id c = company_id data)
                    (\<lambda>c. c\<lparr>c_total_jobs_posted := c_total_jobs_posted c + 1\<rparr>)
                    (col_companies db)\<rparr>"
  using assms
  by (auto simp: create_job_def insert_one_def Let_def enrich_job_def split: if_splits)

lemma posted_then_deleted:
  "map c_total_jobs_posted (col_companies (snd (create_job env1 engineer_post db1))) = [2] \<and>
   map c_total_jobs_posted
     (col_companies (snd (delete_job ''A1'' (snd (create_job env1 engineer_post db1))))) = [2] \<and>
   col_jobs (snd (delete_job ''A1'' (snd (create_job env1 engineer_post db1)))) = col_jobs db1"
  by (simp add: create_job_def delete_job_def db1_def env1_def env_with_def engineer_post_def
      find_one_def acme_def insert_one_def engineer_def Let_def)

text \<open>
  C10. \<open>delete_job\<close> removes the first job that carries the identifier and nothing else:
  the companies (with their \<open>total_jobs_posted\<close>), the applications and the bookmarks
  are the same lists afterwards, also those that reference the deleted identifier.
  Posting a job raises its company's \<open>total_jobs_posted\<close> by one, and deleting that
  job afterwards restores the job list but leaves the raised counter.
\<close>

theorem delete_job_frame:
  "(find_one (\<lambda>j. j_id j = J) (col_jobs db) = None \<longrightarrow>
      delete_job J db = (Inl (HTTPException 404 ''Job not found''), db)) \<and>
   (\<forall>job. find_one (\<lambda>j. j_id j = J) (col_jobs db) = Some job \<longrightarrow>
      (\<exists>pre post. col_jobs db = pre @ job # post \<and> (\<forall>x\<in>set pre. j_id x \<noteq> J) \<and>
         delete_job J db = (Inr ''Job deleted successfully'', db\<lparr>col_jobs := pre @ post\<rparr>))) \<and>
   col_companies (snd (delete_job J db)) = col_companies db \<and>
   col_applications (snd (delete_job J db)) = col_applications db \<and>
   col_bookmarks (snd (delete_job J db)) = col_bookmarks db \<and>
   (\<forall>r db'. create_job w data db = (Inr r, db') \<longrightarrow>
      delete_job (uuid4 w) db' = (Inr ''Job deleted successfully'', db'\<lparr>col_jobs := col_jobs db\<rparr>) \<and>
      (\<exists>c. find_one (\<lambda>c. c_id c = company_id data) (col_companies db) = Some c \<and>
         find_one (\<lambda>c. c_id c = company_id data)
           (col_companies (snd (delete_job (uuid4 w) db'))) =
           Some (c\<lparr>c_total_jobs_posted := c_total_jobs_posted c + 1\<rparr>)))"
proof (intro conjI impI allI)
  assume "find_one (\<lambda>j. j_id j = J) (col_jobs db) = None"
  then have "\<forall>y\<in>set (col_jobs db). \<not> j_id y = J" by (simp add: find_one_None_iff)
  from delete_one_absent[OF this]
  show "delete_job J db = (Inl (HTTPException 404 ''Job not found''), db)"
    by (simp add: delete_job_def)
next
  fix job
  assume job: "find_one (\<lambda>j. j_id j = J) (col_jobs db) = Some job"
  from find_one_SomeD[OF job] obtain pre post where
    split: "col_jobs db = pre @ job # post" and jJ: "j_id job = J"
    and pre: "\<forall>y\<in>set pre. j_id y \<noteq> J" by blast
  have "delete_one (\<lambda>j. j_id j = J) (col_jobs db) = (1, pre @ post)"
    using split jJ pre delete_one_first[of "\<lambda>j. j_id j = J" job pre post] by simp
  then have "delete_job J db = (Inr ''Job deleted successfully'', db\<lparr>col_jobs := pre @ post\<rparr>)"
    by (simp add: delete_job_def)
  with split pre
  show "\<exists>pre post. col_jobs db = pre @ job # post \<and> (\<forall>x\<in>set pre. j_id x \<noteq> J) \<and>
         delete_job J db = (Inr ''Job deleted successfully'', db\<lparr>col_jobs := pre @ post\<rparr>)"
    by blast
next
  show "col_companies (snd (delete_job J db)) = col_companies db"
    "col_applications (snd (delete_job J db)) = col_applications db"
    "col_bookmarks (snd (delete_job J db)) = col_bookmarks db"
    using delete_job_keeps_others[of J db] by simp_all
next
  fix r db'
  assume cr: "create_job w data db = (Inr r, db')"
  let ?inc = "\<lambda>c. c\<lparr>c_total_jobs_posted := c_total_jobs_posted c + 1\<rparr>"
  define doc where "doc = ej_job (cj_job r)"
  from create_job_success[OF cr] have
    comp: "find_one (\<lambda>c. c_id c = company_id data) (col_companies db) \<noteq> None"
    and fresh: "uuid4 w \<notin> j_id ` set (col_jobs db)"
    and doc: "j_id doc = uuid4 w"
    and db': "db' = db\<lparr>col_jobs := col_jobs db @ [doc],
                     col_companies := update_one (\<lambda>c. c_id c = company_id data) ?inc
                       (col_companies db)\<rparr>"
    by (simp_all add: doc_def)
  from fresh have "\<forall>y\<in>set (col_jobs db). \<not> j_id y = uuid4 w" by force
  with doc have "delete_one (\<lambda>j. j_id j = uuid4 w) (col_jobs db @ [doc]) = (1, col_jobs db @ [])"
    using delete_one_first[of "\<lambda>j. j_id j = uuid4 w" doc "col_jobs db" "[]"] by simp
  with db' show del: "delete_job (uuid4 w) db' =
      (Inr ''Job deleted successfully'', db'\<lparr>col_jobs := col_jobs db\<rparr>)"
    by (simp add: delete_job_def)
  from comp obtain c where c: "find_one (\<lambda>c. c_id c = company_id data) (col_companies db) = Some c"
    by blast
  have "find_one (\<lambda>c. c_id c = company_id data) (col_companies db') = Some (?inc c)"
    using c db' find_one_update_one[of "\<lambda>c. c_id c = company_id data" ?inc "col_companies db"]
    by simp
  with c del
  show "\<exists>c. find_one (\<lambda>c. c_id c = company_id data) (col_companies db) = Some c \<and>
         find_one (\<lambda>c. c_id c = company_id data)
           (col_companies (snd (delete_job (uuid4 w) db'))) =
           Some (c\<lparr>c_total_jobs_posted := c_total_jobs_posted c + 1\<rparr>)"
    by simp
qed

lemma db_bookmarked_job:
  "find_one (\<lambda>j. j_id j = ''J1'') (col_jobs db_bookmarked) =
     Some (engineer\<lparr>j_applications_count := 1\<rparr>)"
  by (simp add: db_bookmarked_def db_applied_def find_one_def engineer_def)

theorem delete_job_frame_witness:
  "delete_job ''J1'' db_bookmarked =
     (Inr ''Job deleted successfully'',
      \<lparr>col_companies = [acme], col_jobs = [], col_applications = [alice_application],
       col_bookmarks = [alice_bookmark]\<rparr>) \<and>
   c_total_jobs_posted acme = 1 \<and> a_job_id alice_application = ''J1'' \<and>
   b_job_id alice_bookmark = ''J1'' \<and>
   map c_total_jobs_posted (col_companies (snd (create_job env1 engineer_post db1))) = [2] \<and>
   map c_total_jobs_posted
     (col_companies (snd (delete_job ''A1'' (snd (create_job env1 engineer_post db1))))) = [2] \<and>
   col_jobs (snd (delete_job ''A1'' (snd (create_job env1 engineer_post db1)))) = col_jobs db1"
proof -
  from delete_job_frame[of "''J1''" db_bookmarked] db_bookmarked_job obtain pre post where
    split: "col_jobs db_bookmarked = pre @ engineer\<lparr>j_applications_count := 1\<rparr> # post"
    and d: "delete_job ''J1'' db_bookmarked =
      (Inr ''Job deleted successfully'', db_bookmarked\<lparr>col_jobs := pre @ post\<rparr>)"
    by blast
  from split have "pre = [] \<and> post = []"
    using singleton_split[of "engineer\<lparr>j_applications_count := 1\<rparr>" pre _ post]
    by (simp add: db_bookmarked_def db_applied_def)
  with d have "delete_job ''J1'' db_bookmarked =
     (Inr ''Job deleted successfully'',
      \<lparr>col_companies = [acme], col_jobs = [], col_applications = [alice_application],
       col_bookmarks = [alice_bookmark]\<rparr>)"
    by (simp add: db_bookmarked_def db_applied_def)
  moreover have "c_total_jobs_posted acme = 1" by (simp add: acme_def)
  moreover have "a_job_id alice_application = ''J1''"
    by (simp add: alice_application_def ApplicationCreate.defs application.defs)
  moreover have "b_job_id alice_bookmark = ''J1''" by (simp add: alice_bookmark_def)
  ultimately show ?thesis using posted_then_deleted by simp
qed

subsection \<open>The alternate entry point and the identity token\<close>

lemma model_dump_inj: "model_dump x = model_dump y \<Longrightarrow> x = y"
  by (cases x, cases y) (simp add: model_dump_def)

lemma model_dump_mapped: "model_dump (mapped d) = spec_renamed (model_dump_compat d)"
  by (simp add: model_dump_def model_dump_compat_def mapped_def spec_renamed_def
      spec_canonical_name_def)

text \<open>
  C8. The alternate-shape entry point behaves exactly as the canonical entry point
  called on the same job identifier with the request whose fields are the alternate
  request's fields under their canonical names (full_name as applicant_name, email as
  applicant_email, years_experience as years_of_experience, institution as
  current_institution, all others under their own names): same result, same stored
  application, same counter change, same failure. The remapping keeps every field's
  value and order.
\<close>

theorem compat_is_renaming:
  "model_dump (mapped d) = spec_renamed (model_dump_compat d) \<and>
   map snd (model_dump (mapped d)) = map snd (model_dump_compat d) \<and>
   apply_for_job_compat w d db = apply_for_job w (job_id d) (mapped d) db \<and>
   (\<forall>data'. model_dump data' = spec_renamed (model_dump_compat d) \<longrightarrow>
      apply_for_job_compat w d db = apply_for_job w (job_id d) data' db)"
proof -
  have same: "apply_for_job_compat w d db = apply_for_job w (job_id d) (mapped d) db"
    by (simp add: apply_for_job_compat_def apply_for_job_def)
  have "\<And>data'. model_dump data' = spec_renamed (model_dump_compat d) \<Longrightarrow> data' = mapped d"
    using model_dump_inj model_dump_mapped by simp
  with same have "\<forall>data'. model_dump data' = spec_renamed (model_dump_compat d) \<longrightarrow>
      apply_for_job_compat w d db = apply_for_job w (job_id d) data' db"
    by blast
  moreover have "map snd (model_dump (mapped d)) = map snd (model_dump_compat d)"
    by (simp add: model_dump_def model_dump_compat_def mapped_def)
  ultimately show ?thesis using same model_dump_mapped by blast
qed

lemma alice_renamed: "model_dump alice = spec_renamed (model_dump_compat alice_compat)"
  by (simp add: model_dump_def model_dump_compat_def alice_def alice_compat_def
      spec_renamed_def spec_canonical_name_def)

theorem compat_is_renaming_witness:
  "model_dump alice = spec_renamed (model_dump_compat alice_compat) \<and>
   job_id alice_compat = ''J1'' \<and>
   apply_for_job_compat env1 alice_compat db1 = apply_for_job env1 ''J1'' alice db1 \<and>
   fst (apply_for_job_compat env1 alice_compat db1) =
     Inr \<lparr>message = ''Application submitted successfully!'', application_id = ''A1'',
          application_of =
            alice_application\<lparr>a_id := ''A1'', a_applied_at := 5, a_updated_at := 5\<rparr>\<rparr>"
proof -
  have j: "job_id alice_compat = ''J1''" by (simp add: alice_compat_def)
  from compat_is_renaming[of alice_compat env1 db1] alice_renamed
  have "apply_for_job_compat env1 alice_compat db1 =
      apply_for_job env1 (job_id alice_compat) alice db1"
    by blast
  with j have eq: "apply_for_job_compat env1 alice_compat db1 = apply_for_job env1 ''J1'' alice db1"
    by simp
  have "fst (apply_for_job env1 ''J1'' alice db1) =
     Inr \<lparr>message = ''Application submitted successfully!'', application_id = ''A1'',
          application_of =
            alice_application\<lparr>a_id := ''A1'', a_applied_at := 5, a_updated_at := 5\<rparr>\<rparr>"
    by (simp add: apply_for_job_def first_submission)
  with eq alice_renamed j show ?thesis by simp
qed

lemma google_verification_without_token:
  "google_verification w (data\<lparr>ApplicationCreate.google_access_token := None\<rparr>) = None"
  by (simp add: google_verification_def)

lemma submit_not_rejected:
  assumes "google_verification w data = None"
    and "ApplicationCreate.google_access_token data = tok"
  shows "case submit_application w J (without_token data) db of
           (Inl e, db0) \<Rightarrow> submit_application w J data db = (Inl e, db)
         | (Inr a0, db0) \<Rightarrow>
             submit_application w J data db =
               (Inr (a0\<lparr>ApplicationCreate.google_access_token := tok\<rparr>),
                db0\<lparr>col_applications := col_applications db @
                  [a0\<lparr>ApplicationCreate.google_access_token := tok\<rparr>]\<rparr>)"
  using assms
  by (auto simp: submit_application_def insert_one_def Let_def without_token_def
      google_verification_without_token
      ApplicationCreate.defs application.defs split: option.splits)

lemma no_token_never_asks:
  assumes "\<not> truthy (ApplicationCreate.google_access_token data)"
  shows "google_verification w data = None"
  using assms by (auto simp: google_verification_def truthy_def split: option.splits)

text \<open>
  C4. With a non-empty identity token supplied, on a job that exists and is active:
  a reply whose status is not 200 fails the submission with 401; a 200 reply whose
  payload is a dictionary whose email entry is not the applicant's email (a missing entry
  included) fails it with 403; when the call itself fails, or the 200 reply is not
  JSON or not a dictionary (or the email matches), the block raises nothing and the
  submission goes on exactly as the same request without a token would, except
  that the stored application keeps the token. With no token (absent or empty) the
  service is never consulted: the outcome is the same whatever it would have replied.
\<close>

theorem token_verification_outcomes:
  "(ApplicationCreate.google_access_token data = Some t \<and> t \<noteq> [] \<longrightarrow>
      (\<forall>status_code body job. tokeninfo w t = Response status_code body \<and> status_code \<noteq> 200 \<and>
          find_one (\<lambda>j. j_id j = J) (col_jobs db) = Some job \<and> j_is_active job \<longrightarrow>
        submit_application w J data db =
          (Inl (HTTPException 401 ''Invalid Google authentication token.''), db)) \<and>
      (\<forall>d job. tokeninfo w t = Response 200 (JsonDict d) \<and>
          d ''email'' \<noteq> Some (PStr (applicant_email data)) \<and>
          find_one (\<lambda>j. j_id j = J) (col_jobs db) = Some job \<and> j_is_active job \<longrightarrow>
        submit_application w J data db =
          (Inl (HTTPException 403 ''Email mismatch with Google account.''), db)) \<and>
      (tokeninfo w t = RequestFailed \<or> tokeninfo w t = Response 200 NotJson \<or>
       tokeninfo w t = Response 200 JsonNonDict \<or>
       (\<exists>d. tokeninfo w t = Response 200 (JsonDict d) \<and>
          d ''email'' = Some (PStr (applicant_email data))) \<longrightarrow>
        (case submit_application w J (without_token data) db of
           (Inl e, db0) \<Rightarrow> submit_application w J data db = (Inl e, db)
         | (Inr a0, db0) \<Rightarrow>
             submit_application w J data db =
               (Inr (a0\<lparr>ApplicationCreate.google_access_token := Some t\<rparr>),
                db0\<lparr>col_applications := col_applications db @
                  [a0\<lparr>ApplicationCreate.google_access_token := Some t\<rparr>]\<rparr>)))) \<and>
   (\<not> truthy (ApplicationCreate.google_access_token data) \<longrightarrow>
      (\<forall>f. submit_application (w\<lparr>tokeninfo := f\<rparr>) J data db = submit_application w J data db))"
proof (intro conjI impI allI)
  fix status_code body job
  assume "ApplicationCreate.google_access_token data = Some t \<and> t \<noteq> []"
    and "tokeninfo w t = Response status_code body \<and> status_code \<noteq> 200 \<and>
          find_one (\<lambda>j. j_id j = J) (col_jobs db) = Some job \<and> j_is_active job"
  then show "submit_application w J data db =
          (Inl (HTTPException 401 ''Invalid Google authentication token.''), db)"
    by (simp add: submit_application_def google_verification_def)
next
  fix d job
  assume "ApplicationCreate.google_access_token data = Some t \<and> t \<noteq> []"
    and "tokeninfo w t = Response 200 (JsonDict d) \<and>
          d ''email'' \<noteq> Some (PStr (applicant_email data)) \<and>
          find_one (\<lambda>j. j_id j = J) (col_jobs db) = Some job \<and> j_is_active job"
  then show "submit_application w J data db =
          (Inl (HTTPException 403 ''Email mismatch with Google account.''), db)"
    by (simp add: submit_application_def google_verification_def)
next
  assume tok: "ApplicationCreate.google_access_token data = Some t \<and> t \<noteq> []"
    and "tokeninfo w t = RequestFailed \<or> tokeninfo w t = Response 200 NotJson \<or>
       tokeninfo w t = Response 200 JsonNonDict \<or>
       (\<exists>d. tokeninfo w t = Response 200 (JsonDict d) \<and>
          d ''email'' = Some (PStr (applicant_email data)))"
  then have "google_verification w data = None"
    by (auto simp: google_verification_def)
  moreover from tok have "ApplicationCreate.google_access_token data = Some t" by simp
  ultimately show "case submit_application w J (without_token data) db of
           (Inl e, db0) \<Rightarrow> submit_application w J data db = (Inl e, db)
         | (Inr a0, db0) \<Rightarrow>
             submit_application w J data db =
               (Inr (a0\<lparr>ApplicationCreate.google_access_token := Some t\<rparr>),
                db0\<lparr>col_applications := col_applications db @
                  [a0\<lparr>ApplicationCreate.google_access_token := Some t\<rparr>]\<rparr>)"
    by (rule submit_not_rejected)
next
  fix f
  assume nt: "\<not> truthy (ApplicationCreate.google_access_token data)"
  have "google_verification (w\<lparr>tokeninfo := f\<rparr>) data = None" "google_verification w data = None"
    using no_token_never_asks[OF nt] by simp_all
  then show "submit_application (w\<lparr>tokeninfo := f\<rparr>) J data db = submit_application w J data db"
    by (simp add: submit_application_def Let_def split: option.split)
qed


lemma alice_token:
  "ApplicationCreate.google_access_token alice_with_token = Some ''tok'' \<and>
   applicant_email alice_with_token = ''a@x.com'' \<and> without_token alice_with_token = alice"
  by (simp add: alice_with_token_def alice_def without_token_def)

theorem token_verification_outcomes_witness:
  "submit_application (env_with (Response 401 NotJson)) ''J1'' alice_with_token db1 =
     (Inl (HTTPException 401 ''Invalid Google authentication token.''), db1) \<and>
   submit_application (env_with (Response 200 (JsonDict (Map.empty(''email'' \<mapsto> PStr ''b@x.com''))))) ''J1''
       alice_with_token db1 =
     (Inl (HTTPException 403 ''Email mismatch with Google account.''), db1) \<and>
   submit_application (env_with (Response 200 (JsonDict Map.empty))) ''J1'' alice_with_token db1 =
     (Inl (HTTPException 403 ''Email mismatch with Google account.''), db1) \<and>
   fst (submit_application (env_with RequestFailed) ''J1'' alice_with_token db1) =
     Inr (alice_application\<lparr>a_id := ''A1'', a_applied_at := 5, a_updated_at := 5,
            ApplicationCreate.google_access_token := Some ''tok''\<rparr>) \<and>
   fst (submit_application (env_with (Response 200 JsonNonDict)) ''J1'' alice_with_token db1) =
     Inr (alice_application\<lparr>a_id := ''A1'', a_applied_at := 5, a_updated_at := 5,
            ApplicationCreate.google_access_token := Some ''tok''\<rparr>) \<and>
   submit_application (env_with (Response 401 NotJson)) ''J1'' alice db1 =
     submit_application env1 ''J1'' alice db1"
proof -
  have active: "j_is_active engineer" by (simp add: engineer_def)
  have tk: "ApplicationCreate.google_access_token alice_with_token = Some ''tok'' \<and> ''tok'' \<noteq> []"
    using alice_token by simp
  have first: "submit_application (env_with r) ''J1'' alice db1 =
     (Inr (alice_application\<lparr>a_id := ''A1'', a_applied_at := 5, a_updated_at := 5\<rparr>),
      db_applied\<lparr>col_applications :=
        [alice_application\<lparr>a_id := ''A1'', a_applied_at := 5, a_updated_at := 5\<rparr>]\<rparr>)" for r
    by (simp add: submit_application_def db1_def db_applied_def find_one_def engineer_def
      env_with_def google_verification_def alice_def insert_one_def Let_def acme_def
      alice_application_def ApplicationCreate.defs application.defs)
  have c1: "submit_application (env_with (Response 401 NotJson)) ''J1'' alice_with_token db1 =
     (Inl (HTTPException 401 ''Invalid Google authentication token.''), db1)"
    using token_verification_outcomes[of alice_with_token "''tok''"
        "env_with (Response 401 NotJson)" "''J1''" db1] tk db1_job active
    by (simp add: env_with_def)
  have c2: "submit_application (env_with (Response 200 (JsonDict (Map.empty(''email'' \<mapsto> PStr ''b@x.com''))))) ''J1''
       alice_with_token db1 =
     (Inl (HTTPException 403 ''Email mismatch with Google account.''), db1)"
    using token_verification_outcomes[of alice_with_token "''tok''"
        "env_with (Response 200 (JsonDict (Map.empty(''email'' \<mapsto> PStr ''b@x.com''))))" "''J1''" db1]
      tk db1_job active alice_token
    by (simp add: env_with_def)
  have c3: "submit_application (env_with (Response 200 (JsonDict Map.empty))) ''J1'' alice_with_token db1 =
     (Inl (HTTPException 403 ''Email mismatch with Google account.''), db1)"
    using token_verification_outcomes[of alice_with_token "''tok''"
        "env_with (Response 200 (JsonDict Map.empty))" "''J1''" db1]
      tk db1_job active alice_token
    by (simp add: env_with_def)
  have c4: "fst (submit_application (env_with RequestFailed) ''J1'' alice_with_token db1) =
     Inr (alice_application\<lparr>a_id := ''A1'', a_applied_at := 5, a_updated_at := 5,
            ApplicationCreate.google_access_token := Some ''tok''\<rparr>)"
    using token_verification_outcomes[of alice_with_token "''tok''"
        "env_with RequestFailed" "''J1''" db1]
      tk alice_token first[of RequestFailed]
    by (simp add: env_with_def)
  have c5: "fst (submit_application (env_with (Response 200 JsonNonDict)) ''J1'' alice_with_token db1) =
     Inr (alice_application\<lparr>a_id := ''A1'', a_applied_at := 5, a_updated_at := 5,
            ApplicationCreate.google_access_token := Some ''tok''\<rparr>)"
    using token_verification_outcomes[of alice_with_token "''tok''"
        "env_with (Response 200 JsonNonDict)" "''J1''" db1]
      tk alice_token first[of "Response 200 JsonNonDict"]
    by (simp add: env_with_def)
  have c6: "submit_application (env_with (Response 401 NotJson)) ''J1'' alice db1 =
     submit_application env1 ''J1'' alice db1"
    by (simp add: first env1_def)
  from c1 c2 c3 c4 c5 c6 show ?thesis by simp
qed

subsection \<open>The listing query\<close>

lemma ceil_div_aux:
  fixes t p :: int
  assumes "0 < p"
  shows "(t + p - 1) div p = (if t mod p = 0 then t div p else t div p + 1)"
proof (cases "t mod p = 0")
  case True
  have "t = p * (t div p) + t mod p" by simp
  with True have "t = p * (t div p)" by simp
  then have "t + p - 1 = p * (t div p) + (p - 1)" by simp
  moreover have "0 \<le> p - 1" "p - 1 < p" using assms by simp_all
  ultimately have "(t + p - 1) div p = t div p" by (rule int_div_pos_eq)
  with True show ?thesis by simp
next
  case False
  have "t = p * (t div p) + t mod p" by simp
  then have "t + p - 1 = p * (t div p + 1) + (t mod p - 1)" by (simp add: algebra_simps)
  moreover have "0 \<le> t mod p - 1" using False assms pos_mod_sign[of p t] by linarith
  moreover have "t mod p - 1 < p" using assms pos_mod_bound[of p t] by linarith
  ultimately have "(t + p - 1) div p = t div p + 1" by (rule int_div_pos_eq)
  with False show ?thesis by simp
qed

lemma ceil_div:
  fixes t p :: int
  assumes "0 < p"
  shows "(t + p - 1) div p = \<lceil>real_of_int t / real_of_int p\<rceil>"
proof -
  have "\<lceil>real_of_int t / real_of_int p\<rceil> = - ((- t) div p)"
    by (rule ceiling_divide_eq_div)
  also have "\<dots> = (if t mod p = 0 then t div p else t div p + 1)"
    using assms by (simp add: zdiv_zminus1_eq_if)
  finally show ?thesis using ceil_div_aux[OF assms, of t] by simp
qed

lemma mset_sort_docs: "mset (sort_docs ord xs) = mset xs"
  by (cases ord; cases "snd ord") (simp_all add: sort_docs_def)

lemma length_sort_docs: "length (sort_docs ord xs) = length xs"
  by (cases "snd ord") (simp_all add: sort_docs_def)

lemma set_sort_docs: "set (sort_docs ord xs) = set xs"
  by (cases "snd ord") (simp_all add: sort_docs_def)

lemma matches_salary:
  "matches rx (build_query s c t e l r (Some X) a) j \<longleftrightarrow>
     matches rx (build_query s c t e l r None a) j \<and> (\<exists>m. j_salary_max j = Some m \<and> X \<le> m)"
  by (auto simp: matches_def build_query_def split: option.splits)


text \<open>
  C5. With \<open>salary_min = X\<close> supplied, a listing matches the query exactly when it
  matches the same query without \<open>salary_min\<close> and its \<open>salary_max\<close> is defined and at
  least \<open>X\<close>: a maximum equal to \<open>X\<close> is included, a listing without a maximum is
  excluded. The reported total counts exactly those listings, the returned page is a
  window of exactly those listings, and when they fit on the first page the returned
  jobs are exactly those listings.
\<close>

theorem salary_min_filter:
  "(matches rx (build_query s c t e l r (Some X) a) j \<longleftrightarrow>
      matches rx (build_query s c t e l r None a) j \<and> (\<exists>m. j_salary_max j = Some m \<and> X \<le> m)) \<and>
   (j_salary_max j = Some X \<longrightarrow>
      matches rx (build_query s c t e l r (Some X) a) j =
      matches rx (build_query s c t e l r None a) j) \<and>
   (j_salary_max j = None \<longrightarrow> \<not> matches rx (build_query s c t e l r (Some X) a) j) \<and>
   (\<forall>res. list_jobs rx db s c t e l r (Some X) a srt page ps = Inr res \<longrightarrow>
      total (pagination_of res) =
        int (length (filter (\<lambda>j. matches rx (build_query s c t e l r None a) j \<and>
                                 (\<exists>m. j_salary_max j = Some m \<and> X \<le> m)) (col_jobs db))) \<and>
      jobs res = map (enrich_job db) (take (nat ps) (drop (nat ((page - 1) * ps))
        (sort_docs (sort_map srt)
          (filter (\<lambda>j. matches rx (build_query s c t e l r None a) j \<and>
                        (\<exists>m. j_salary_max j = Some m \<and> X \<le> m)) (col_jobs db))))) \<and>
      (\<forall>ej\<in>set (jobs res). ej_job ej \<in> set (col_jobs db) \<and>
          matches rx (build_query s c t e l r None a) (ej_job ej) \<and>
          (\<exists>m. j_salary_max (ej_job ej) = Some m \<and> X \<le> m)) \<and>
      (page = 1 \<and> total (pagination_of res) \<le> ps \<longrightarrow>
         ej_job ` set (jobs res) =
           {j \<in> set (col_jobs db). matches rx (build_query s c t e l r None a) j \<and>
              (\<exists>m. j_salary_max j = Some m \<and> X \<le> m)}))"
proof -
  let ?P = "\<lambda>j. matches rx (build_query s c t e l r None a) j \<and>
    (\<exists>m. j_salary_max j = Some m \<and> X \<le> m)"
  let ?found = "filter ?P (col_jobs db)"
  let ?sorted = "sort_docs (sort_map srt) ?found"
  have iff: "\<And>j. matches rx (build_query s c t e l r (Some X) a) j \<longleftrightarrow> ?P j"
    by (rule matches_salary)
  have "matches rx (build_query s c t e l r (Some X) a) = ?P"
    by (rule ext) (rule matches_salary)
  then have flt: "filter (matches rx (build_query s c t e l r (Some X) a)) (col_jobs db) = ?found"
    by (simp only:)
  have ej: "\<And>A. ej_job ` enrich_job db ` A = A"
    by (force simp: enrich_job_def)
  have window: "\<And>n k. set (take n (drop k ?sorted)) \<subseteq> {j \<in> set (col_jobs db). ?P j}"
  proof -
    fix n k
    have "set (take n (drop k ?sorted)) \<subseteq> set ?sorted"
      by (meson set_take_subset set_drop_subset subset_trans)
    then show "set (take n (drop k ?sorted)) \<subseteq> {j \<in> set (col_jobs db). ?P j}"
      by (simp add: set_sort_docs)
  qed
  have res: "\<forall>res. list_jobs rx db s c t e l r (Some X) a srt page ps = Inr res \<longrightarrow>
      total (pagination_of res) = int (length ?found) \<and>
      jobs res = map (enrich_job db) (take (nat ps) (drop (nat ((page - 1) * ps)) ?sorted)) \<and>
      (\<forall>ej\<in>set (jobs res). ej_job ej \<in> set (col_jobs db) \<and> ?P (ej_job ej)) \<and>
      (page = 1 \<and> total (pagination_of res) \<le> ps \<longrightarrow>
         ej_job ` set (jobs res) = {j \<in> set (col_jobs db). ?P j})"
  proof (intro allI impI)
    fix res
    assume "list_jobs rx db s c t e l r (Some X) a srt page ps = Inr res"
    then have tot: "total (pagination_of res) = int (length ?found)"
      and js: "jobs res =
        map (enrich_job db) (take (nat ps) (drop (nat ((page - 1) * ps)) ?sorted))"
      by (auto simp: list_jobs_def Let_def flt split: if_splits)
    have mem: "\<forall>ej\<in>set (jobs res). ej_job ej \<in> set (col_jobs db) \<and> ?P (ej_job ej)"
    proof
      fix x assume "x \<in> set (jobs res)"
      then have "ej_job x \<in> ej_job ` set (jobs res)" by simp
      with js ej have "ej_job x \<in> set (take (nat ps) (drop (nat ((page - 1) * ps)) ?sorted))"
        by simp
      with window show "ej_job x \<in> set (col_jobs db) \<and> ?P (ej_job x)" by blast
    qed
    have all: "page = 1 \<and> total (pagination_of res) \<le> ps \<longrightarrow>
         ej_job ` set (jobs res) = {j \<in> set (col_jobs db). ?P j}"
    proof
      assume h: "page = 1 \<and> total (pagination_of res) \<le> ps"
      with tot have "int (length ?found) \<le> ps" by simp
      then have "length ?found \<le> nat ps" by linarith
      then have "length ?sorted \<le> nat ps" by (simp add: length_sort_docs)
      with h js have "jobs res = map (enrich_job db) ?sorted" by simp
      with ej show "ej_job ` set (jobs res) = {j \<in> set (col_jobs db). ?P j}"
        by (simp add: set_sort_docs)
    qed
    from tot js mem all
    show "total (pagination_of res) = int (length ?found) \<and>
      jobs res = map (enrich_job db) (take (nat ps) (drop (nat ((page - 1) * ps)) ?sorted)) \<and>
      (\<forall>ej\<in>set (jobs res). ej_job ej \<in> set (col_jobs db) \<and> ?P (ej_job ej)) \<and>
      (page = 1 \<and> total (pagination_of res) \<le> ps \<longrightarrow>
         ej_job ` set (jobs res) = {j \<in> set (col_jobs db). ?P j})"
      by blast
  qed
  have b1: "j_salary_max j = Some X \<longrightarrow>
      matches rx (build_query s c t e l r (Some X) a) j =
      matches rx (build_query s c t e l r None a) j"
    by (simp add: iff)
  have b2: "j_salary_max j = None \<longrightarrow> \<not> matches rx (build_query s c t e l r (Some X) a) j"
    by (simp add: iff)
  from iff[of j] b1 b2 res show ?thesis by blast
qed


lemma salary_query_result:
  "list_jobs any_rx db_salaries None None None None None None (Some 20) True ''newest'' 1 10 =
     Inr \<lparr>jobs = [\<lparr>ej_job = engineer, ej_company = Some acme\<rparr>],
          pagination_of = \<lparr>total = 1, page_no = 1, page_size_of = 10, total_pages = 1\<rparr>\<rparr>"
  by (simp add: list_jobs_def Let_def db_salaries_def build_query_def truthy_def matches_def
      engineer_def sort_map_def sort_docs_def enrich_job_def find_one_def acme_def)

theorem salary_min_filter_witness:
  "j_salary_max engineer = Some 20 \<and>
   matches any_rx (build_query None None None None None None (Some 20) True) engineer \<and>
   \<not> matches any_rx (build_query None None None None None None (Some 21) True) engineer \<and>
   \<not> matches any_rx (build_query None None None None None None (Some 20) True)
       (engineer\<lparr>j_salary_max := None\<rparr>) \<and>
   list_jobs any_rx db_salaries None None None None None None (Some 20) True ''newest'' 1 10 =
     Inr \<lparr>jobs = [\<lparr>ej_job = engineer, ej_company = Some acme\<rparr>],
          pagination_of = \<lparr>total = 1, page_no = 1, page_size_of = 10, total_pages = 1\<rparr>\<rparr>"
proof -
  have m: "j_salary_max engineer = Some 20" by (simp add: engineer_def)
  have base: "matches any_rx (build_query None None None None None None None True) engineer"
    by (simp add: matches_def build_query_def truthy_def engineer_def)
  from salary_min_filter[of any_rx None None None None None None 20 True engineer] m base
  have "matches any_rx (build_query None None None None None None (Some 20) True) engineer"
    by simp
  moreover from salary_min_filter[of any_rx None None None None None None 21 True engineer] m
  have "\<not> matches any_rx (build_query None None None None None None (Some 21) True) engineer"
    by simp
  moreover
  from salary_min_filter[of any_rx None None None None None None 20 True
      "engineer\<lparr>j_salary_max := None\<rparr>"]
  have "\<not> matches any_rx (build_query None None None None None None (Some 20) True)
       (engineer\<lparr>j_salary_max := None\<rparr>)"
    by simp
  ultimately show ?thesis using m salary_query_result by simp
qed

lemma window_length:
  "0 \<le> k \<Longrightarrow> 1 \<le> p \<Longrightarrow>
     int (length (take (nat p) (drop (nat k) xs))) = max 0 (min p (int (length xs) - k))"
  by (auto simp: min_def max_def)

text \<open>
  C6. For \<open>page \<ge> 1\<close> and \<open>1 \<le> page_size \<le> 50\<close> the query succeeds; the returned page
  is the window of the sorted matching listings (a permutation of the matching
  listings) that starts at offset \<open>(page - 1) * page_size\<close> and has at most \<open>page_size\<close>
  entries (exactly as many as remain from the offset, up to \<open>page_size\<close>); \<open>total_pages\<close> is
  the ceiling of total over \<open>page_size\<close>, but at least 1; a page beyond the last is the
  empty list, not an error.
\<close>

theorem list_jobs_pagination:
  "1 \<le> page \<and> 1 \<le> ps \<and> ps \<le> 50 \<longrightarrow>
     (\<exists>res. list_jobs rx db s c t e l r m a srt page ps = Inr res \<and>
        jobs res = map (enrich_job db) (take (nat ps) (drop (nat ((page - 1) * ps))
          (sort_docs (sort_map srt) (found_jobs rx db (build_query s c t e l r m a))))) \<and>
        mset (sort_docs (sort_map srt) (found_jobs rx db (build_query s c t e l r m a))) =
          mset (found_jobs rx db (build_query s c t e l r m a)) \<and>
        total (pagination_of res) =
          int (length (found_jobs rx db (build_query s c t e l r m a))) \<and>
        int (length (jobs res)) =
          max 0 (min ps (total (pagination_of res) - (page - 1) * ps)) \<and>
        int (length (jobs res)) \<le> ps \<and>
        total_pages (pagination_of res) =
          max 1 \<lceil>real_of_int (total (pagination_of res)) / real_of_int ps\<rceil> \<and>
        1 \<le> total_pages (pagination_of res) \<and>
        (total_pages (pagination_of res) < page \<longrightarrow> jobs res = []))"
proof (intro impI)
  assume range: "1 \<le> page \<and> 1 \<le> ps \<and> ps \<le> 50"
  let ?found = "found_jobs rx db (build_query s c t e l r m a)"
  let ?sorted = "sort_docs (sort_map srt) ?found"
  let ?T = "int (length ?found)"
  let ?js = "map (enrich_job db) (take (nat ps) (drop (nat ((page - 1) * ps)) ?sorted))"
  let ?res = "\<lparr>jobs = ?js,
     pagination_of = \<lparr>total = ?T, page_no = page, page_size_of = ps,
       total_pages = max 1 ((?T + ps - 1) div ps)\<rparr>\<rparr>"
  from range have run: "list_jobs rx db s c t e l r m a srt page ps = Inr ?res"
    by (simp add: list_jobs_def Let_def found_jobs_def)
  from range have skip: "0 \<le> (page - 1) * ps" by simp
  have len: "int (length ?js) = max 0 (min ps (?T - (page - 1) * ps))"
    using range window_length[OF skip, of ps ?sorted] by (simp add: length_sort_docs)
  have pages: "max 1 ((?T + ps - 1) div ps) = max 1 \<lceil>real_of_int ?T / real_of_int ps\<rceil>"
    using range ceil_div[of ps ?T] by simp
  have beyond: "max 1 ((?T + ps - 1) div ps) < page \<longrightarrow> ?js = []"
  proof
    assume lt: "max 1 ((?T + ps - 1) div ps) < page"
    define q where "q = (?T + ps - 1) div ps"
    from lt have qle: "q \<le> page - 1" by (simp add: q_def)
    have "?T + ps - 1 = ps * q + (?T + ps - 1) mod ps" by (simp add: q_def)
    moreover have "(?T + ps - 1) mod ps < ps" using range by simp
    ultimately have "?T + ps - 1 < ps * q + ps" by linarith
    moreover have "ps * q \<le> ps * (page - 1)" using range qle by (simp add: mult_left_mono)
    ultimately have "?T \<le> ps * (page - 1)" by linarith
    then have "?T \<le> (page - 1) * ps" by (simp add: mult.commute)
    then have "length ?sorted \<le> nat ((page - 1) * ps)"
      by (simp add: length_sort_docs)
    then show "?js = []" by simp
  qed
  define res where "res = ?res"
  have A1: "list_jobs rx db s c t e l r m a srt page ps = Inr res"
    using run by (simp add: res_def)
  have A2: "jobs res = ?js" by (simp add: res_def)
  have A3: "mset ?sorted = mset ?found" by (rule mset_sort_docs)
  have A4: "total (pagination_of res) = ?T" by (simp add: res_def)
  have A5: "int (length (jobs res)) =
      max 0 (min ps (total (pagination_of res) - (page - 1) * ps))"
    unfolding A2 A4 by (rule len)
  have A6: "int (length (jobs res)) \<le> ps"
    unfolding A5 using range by simp
  have tp: "total_pages (pagination_of res) = max 1 ((?T + ps - 1) div ps)"
    by (simp add: res_def)
  have A7: "total_pages (pagination_of res) =
      max 1 \<lceil>real_of_int (total (pagination_of res)) / real_of_int ps\<rceil>"
    unfolding tp A4 by (rule pages)
  have A8: "1 \<le> total_pages (pagination_of res)"
    unfolding tp by simp
  have A9: "total_pages (pagination_of res) < page \<longrightarrow> jobs res = []"
    unfolding tp A2 by (rule beyond)
  from A1 A2 A3 A4 A5 A6 A7 A8 A9
  show "\<exists>res. list_jobs rx db s c t e l r m a srt page ps = Inr res \<and>
        jobs res = map (enrich_job db) (take (nat ps) (drop (nat ((page - 1) * ps))
          (sort_docs (sort_map srt) (found_jobs rx db (build_query s c t e l r m a))))) \<and>
        mset (sort_docs (sort_map srt) (found_jobs rx db (build_query s c t e l r m a))) =
          mset (found_jobs rx db (build_query s c t e l r m a)) \<and>
        total (pagination_of res) =
          int (length (found_jobs rx db (build_query s c t e l r m a))) \<and>
        int (length (jobs res)) =
          max 0 (min ps (total (pagination_of res) - (page - 1) * ps)) \<and>
        int (length (jobs res)) \<le> ps \<and>
        total_pages (pagination_of res) =
          max 1 \<lceil>real_of_int (total (pagination_of res)) / real_of_int ps\<rceil> \<and>
        1 \<le> total_pages (pagination_of res) \<and>
        (total_pages (pagination_of res) < page \<longrightarrow> jobs res = [])"
    by blast
qed


lemma db25_found:
  "found_jobs any_rx db25 (build_query None None None None None None None True) =
     map listing [0..<25]"
proof -
  have "\<And>n. matches any_rx (build_query None None None None None None None True) (listing n)"
    by (simp add: matches_def build_query_def truthy_def listing_def engineer_def)
  then have "filter (matches any_rx (build_query None None None None None None None True))
      (map listing [0..<25]) = map listing [0..<25]"
    by (simp add: filter_map o_def)
  then show ?thesis by (simp add: found_jobs_def db25_def)
qed

theorem list_jobs_pagination_witness:
  "(\<exists>res. list_jobs any_rx db25 None None None None None None None True ''newest'' 1 10 = Inr res \<and>
      length (jobs res) = 10 \<and> total (pagination_of res) = 25 \<and>
      total_pages (pagination_of res) = 3) \<and>
   (\<exists>res. list_jobs any_rx db25 None None None None None None None True ''newest'' 3 10 = Inr res \<and>
      length (jobs res) = 5 \<and> total_pages (pagination_of res) = 3) \<and>
   (\<exists>res. list_jobs any_rx db25 None None None None None None None True ''newest'' 10 10 = Inr res \<and>
      jobs res = [] \<and> total_pages (pagination_of res) = 3) \<and>
   (\<exists>res. list_jobs any_rx (db25\<lparr>col_jobs := []\<rparr>) None None None None None None None True
        ''newest'' 1 10 = Inr res \<and>
      jobs res = [] \<and> total (pagination_of res) = 0 \<and> total_pages (pagination_of res) = 1)"
proof -
  have n: "length (found_jobs any_rx db25 (build_query None None None None None None None True)) = 25"
    by (simp add: db25_found)
  have c: "\<lceil>25 / (10::real)\<rceil> = 3" by (simp add: ceiling_eq_iff)
  have p1: "\<exists>res. list_jobs any_rx db25 None None None None None None None True ''newest'' 1 10 = Inr res \<and>
      length (jobs res) = 10 \<and> total (pagination_of res) = 25 \<and>
      total_pages (pagination_of res) = 3"
    using list_jobs_pagination[of 1 10 any_rx db25 None None None None None None None True "''newest''"]
      n c by auto
  have p3: "\<exists>res. list_jobs any_rx db25 None None None None None None None True ''newest'' 3 10 = Inr res \<and>
      length (jobs res) = 5 \<and> total_pages (pagination_of res) = 3"
    using list_jobs_pagination[of 3 10 any_rx db25 None None None None None None None True "''newest''"]
      n c by auto
  have p10: "\<exists>res. list_jobs any_rx db25 None None None None None None None True ''newest'' 10 10 = Inr res \<and>
      jobs res = [] \<and> total_pages (pagination_of res) = 3"
    using list_jobs_pagination[of 10 10 any_rx db25 None None None None None None None True "''newest''"]
      n c by auto
  have e: "length (found_jobs any_rx (db25\<lparr>col_jobs := []\<rparr>)
      (build_query None None None None None None None True)) = 0"
    by (simp add: found_jobs_def)
  have p0: "\<exists>res. list_jobs any_rx (db25\<lparr>col_jobs := []\<rparr>) None None None None None None None True
        ''newest'' 1 10 = Inr res \<and>
      jobs res = [] \<and> total (pagination_of res) = 0 \<and> total_pages (pagination_of res) = 1"
    using list_jobs_pagination[of 1 10 any_rx "db25\<lparr>col_jobs := []\<rparr>" None None None None None
        None None True "''newest''"] e by auto
  from p1 p3 p10 p0 show ?thesis by blast
qed

end
